theory Spec2Isabelle
  imports
    Main
    "HOL-Library.Char_ord"
    "HOL-Library.List_Lexorder"
    "HOL-Library.Product_Lexorder"
begin

text \<open>
  A shallow embedding of the two engines of the code analyzer: the progress store of
  progress\_manager.py (a persisted work queue with its reconciliation, batch selection
  and lifecycle transitions) and the endpoint detector of code\_reader.py (path checks,
  pattern tables, detection and identities). Mutation is explicit state passing,
  exceptions are values of a sum type, the clock, the file system and the working
  directory are inputs.
\<close>

section \<open>Progress store (progress\_manager.py)\<close>

text \<open>
  Python strings are modelled as \<^typ>\<open>string\<close> and compared as Python compares them
  (lexicographically, character by character); \<open>Optional[str]\<close> is
  \<^typ>\<open>string option\<close>; Python's unbounded \<open>int\<close> is \<^typ>\<open>int\<close>. The status of a
  record is a string in the source (\<open>"pending"\<close>, \<open>"in_progress"\<close>, \<open>"completed"\<close>,
  \<open>"failed"\<close>), and a persisted document may hold any string there, so it stays a string.
\<close>

subsection \<open>Data model\<close>

text \<open>\<open>EndpointInfo\<close> of code\_reader.py (the fields carry the prefix \<open>ei_\<close>).\<close>

record EndpointInfo =
  ei_name :: string
  ei_type :: string
  ei_method :: "string option"
  ei_path :: "string option"
  ei_file_path :: string
  ei_line_number :: int
  ei_function_name :: string
  ei_service_name :: "string option"
  ei_description :: "string option"

record EndpointProgress =
  endpoint_id :: string
  endpoint_name :: string
  endpoint_type :: string
  file_path :: string
  status :: string
  doc_file :: "string option"
  started_at :: "string option"
  completed_at :: "string option"
  error_message :: "string option"
  retry_count :: int

text \<open>
  A Python \<open>dict\<close> keeps its keys in insertion order, and \<open>get_next_endpoints\<close> sorts
  \<open>values()\<close> with a stable sort, so the order is observable: the mapping is an
  association list in insertion order.
\<close>

type_synonym endpoint_dict = "(string \<times> EndpointProgress) list"

record AnalysisProgress =
  project_name :: string
  code_dir :: string
  output_dir :: string
  total_endpoints :: int
  completed_count :: int
  failed_count :: int
  pending_count :: int
  last_run :: "string option"
  created_at :: string
  endpoints :: endpoint_dict

text \<open>\<open>AnalyzerConfig\<close> of config.py: the fields the progress manager reads.\<close>

record AnalyzerConfig =
  cfg_code_dir :: string
  cfg_output_dir :: string
  cfg_progress_file :: string

subsection \<open>Dictionary operations\<close>

definition dict_contains :: "string \<Rightarrow> endpoint_dict \<Rightarrow> bool" where
  "dict_contains k d = (k \<in> set (map fst d))"

definition dict_get :: "endpoint_dict \<Rightarrow> string \<Rightarrow> EndpointProgress option" where
  "dict_get d k = map_of d k"

definition dict_values :: "endpoint_dict \<Rightarrow> EndpointProgress list" where
  "dict_values d = map snd d"

text \<open>\<open>d[k] = v\<close> for a key that is not in the dictionary: the entry goes last.\<close>

definition dict_insert_new :: "string \<Rightarrow> EndpointProgress \<Rightarrow> endpoint_dict \<Rightarrow> endpoint_dict" where
  "dict_insert_new k v d = d @ [(k, v)]"

text \<open>\<open>ep = d[k]; ep.field = ...\<close>: the object stored under \<open>k\<close> is mutated in place.\<close>

definition dict_modify :: "string \<Rightarrow> (EndpointProgress \<Rightarrow> EndpointProgress) \<Rightarrow> endpoint_dict \<Rightarrow> endpoint_dict" where
  "dict_modify k f d = map (\<lambda>(k', v). if k' = k then (k', f v) else (k', v)) d"

subsection \<open>Counters\<close>

definition count_status :: "string \<Rightarrow> endpoint_dict \<Rightarrow> int" where
  "count_status s d = int (length (filter (\<lambda>ep. status ep = s) (dict_values d)))"

definition update_counts :: "AnalysisProgress \<Rightarrow> AnalysisProgress" where
  "update_counts p =
     p\<lparr>completed_count := count_status ''completed'' (endpoints p),
       failed_count := count_status ''failed'' (endpoints p),
       pending_count := count_status ''pending'' (endpoints p),
       total_endpoints := int (length (endpoints p))\<rparr>"

subsection \<open>The manager and the persisted document\<close>

text \<open>
  What the progress file holds, as \<open>load_progress\<close> sees it: no file; content on which
  \<open>json.load\<close> or \<open>from_dict\<close> raises (this includes the empty file that
  \<open>open(path, 'w')\<close> leaves before anything is written, and every proper prefix of a
  document); or a document, identified with the store it decodes to.
\<close>

datatype progress_file = Missing | Malformed | Document AnalysisProgress

text \<open>
  The state the operations act on: the manager's attribute \<open>self._progress\<close> and the
  progress file.
\<close>

record world =
  self_progress :: "AnalysisProgress option"
  disk :: progress_file

text \<open>\<open>os.path.basename\<close> (posixpath): what follows the last slash.\<close>

definition basename :: "string \<Rightarrow> string" where
  "basename p = rev (takeWhile (\<lambda>c. c \<noteq> CHR ''/'') (rev p))"

text \<open>
  \<open>datetime.now().isoformat()\<close> is an input of the model: every operation takes the
  strings its clock reads return, in the order the source reads the clock.
\<close>

definition create_new_progress :: "AnalyzerConfig \<Rightarrow> string \<Rightarrow> AnalysisProgress" where
  "create_new_progress cfg now =
     \<lparr>project_name = basename (cfg_code_dir cfg),
      code_dir = cfg_code_dir cfg,
      output_dir = cfg_output_dir cfg,
      total_endpoints = 0,
      completed_count = 0,
      failed_count = 0,
      pending_count = 0,
      last_run = None,
      created_at = now,
      endpoints = []\<rparr>"

text \<open>
  \<open>load_progress\<close>: the cached store when there is one (an \<open>AnalysisProgress\<close> object
  is always truthy), else the document of the file, else a fresh store; the result is
  cached.
\<close>

definition load_progress :: "AnalyzerConfig \<Rightarrow> string \<Rightarrow> world \<Rightarrow> AnalysisProgress \<times> world" where
  "load_progress cfg now w =
     (case self_progress w of
        Some p \<Rightarrow> (p, w)
      | None \<Rightarrow>
          (let p = (case disk w of
                      Document d \<Rightarrow> d
                    | Malformed \<Rightarrow> create_new_progress cfg now
                    | Missing \<Rightarrow> create_new_progress cfg now)
           in (p, w\<lparr>self_progress := Some p\<rparr>)))"

text \<open>
  \<open>save_progress\<close>, effect by effect: the counters are recomputed in memory (line 131);
  \<open>open(progress_file, 'w')\<close> truncates the file in place (line 134); \<open>json.dump\<close>
  writes the document into it and the file is closed (line 135). The list holds the
  state after each effect; without a cached store nothing happens.
\<close>

definition save_progress_steps :: "world \<Rightarrow> world list" where
  "save_progress_steps w =
     (case self_progress w of
        None \<Rightarrow> []
      | Some p \<Rightarrow>
          (let w1 = w\<lparr>self_progress := Some (update_counts p)\<rparr>;
               w2 = w1\<lparr>disk := Malformed\<rparr>;
               w3 = w2\<lparr>disk := Document (update_counts p)\<rparr>
           in [w1, w2, w3]))"

definition save_progress :: "world \<Rightarrow> world" where
  "save_progress w = last (w # save_progress_steps w)"

subsection \<open>Reconciliation\<close>

text \<open>Python's \<open>str()\<close> of an optional string inside an f-string.\<close>

definition fmt_opt :: "string option \<Rightarrow> string" where
  "fmt_opt v = (case v of None \<Rightarrow> ''None'' | Some s \<Rightarrow> s)"

text \<open>\<open>str.replace(old, new)\<close> for a one-character \<open>old\<close>.\<close>

definition replace_char :: "char \<Rightarrow> string \<Rightarrow> string \<Rightarrow> string" where
  "replace_char old new s = concat (map (\<lambda>c. if c = old then new else [c]) s)"

definition unique_id :: "EndpointInfo \<Rightarrow> string" where
  "unique_id ep =
     (if ei_type ep = ''grpc''
      then ''grpc_'' @ fmt_opt (ei_service_name ep) @ ''_'' @ ei_name ep
      else replace_char (CHR ''}'') ''''
             (replace_char (CHR ''{'') ''''
               (replace_char (CHR ''/'') ''_''
                 (''http_'' @ fmt_opt (ei_method ep) @ ''_'' @ fmt_opt (ei_path ep)))))"

definition new_record :: "EndpointInfo \<Rightarrow> EndpointProgress" where
  "new_record ep =
     \<lparr>endpoint_id = unique_id ep,
      endpoint_name = ei_name ep,
      endpoint_type = ei_type ep,
      file_path = ei_file_path ep,
      status = ''pending'',
      doc_file = None,
      started_at = None,
      completed_at = None,
      error_message = None,
      retry_count = 0\<rparr>"

text \<open>The first loop of \<open>sync_endpoints\<close> (lines 145-154).\<close>

fun add_new_endpoints :: "EndpointInfo list \<Rightarrow> endpoint_dict \<Rightarrow> endpoint_dict" where
  "add_new_endpoints [] d = d"
| "add_new_endpoints (ep # eps) d =
     add_new_endpoints eps
       (if \<not> dict_contains (unique_id ep) d
        then dict_insert_new (unique_id ep) (new_record ep) d
        else d)"

text \<open>
  \<open>sync_endpoints\<close>. The set \<open>current_ids\<close> is only read by the second loop (lines
  157-160), which executes \<open>pass\<close> and nothing else. The store object is the cached
  one, so its mutation is a mutation of \<open>self._progress\<close>; \<open>update_counts\<close> runs here
  and once more inside \<open>save_progress\<close>.
\<close>

definition sync_endpoints :: "AnalyzerConfig \<Rightarrow> string \<Rightarrow> EndpointInfo list \<Rightarrow> world \<Rightarrow> world" where
  "sync_endpoints cfg now eps w =
     (let (p, w1) = load_progress cfg now w;
          p1 = p\<lparr>endpoints := add_new_endpoints eps (endpoints p)\<rparr>;
          p2 = update_counts p1
      in save_progress (w1\<lparr>self_progress := Some p2\<rparr>))"

subsection \<open>Batch selection\<close>

text \<open>\<open>xs[:n]\<close>: a negative \<open>n\<close> counts from the end.\<close>

definition py_slice_to :: "int \<Rightarrow> 'a list \<Rightarrow> 'a list" where
  "py_slice_to n xs =
     (if 0 \<le> n then take (nat n) xs else take (nat (int (length xs) + n)) xs)"

text \<open>
  \<open>list.sort(key=...)\<close> is stable, as \<^const>\<open>sort_key\<close> is; the key is the tuple
  \<open>(file_path, endpoint_name)\<close>, compared lexicographically.
\<close>

definition get_next_endpoints ::
  "AnalyzerConfig \<Rightarrow> string \<Rightarrow> int \<Rightarrow> world \<Rightarrow> EndpointProgress list \<times> world" where
  "get_next_endpoints cfg now batch_size w =
     (let (p, w1) = load_progress cfg now w;
          pending = filter (\<lambda>ep. status ep = ''pending'') (dict_values (endpoints p));
          sorted_pending = sort_key (\<lambda>x. (file_path x, endpoint_name x)) pending
      in (py_slice_to batch_size sorted_pending, w1))"

subsection \<open>Lifecycle transitions\<close>

definition mark_in_progress ::
  "AnalyzerConfig \<Rightarrow> string \<Rightarrow> string \<Rightarrow> string \<Rightarrow> string \<Rightarrow> world \<Rightarrow> world" where
  "mark_in_progress cfg now t_started t_last_run eid w =
     (let (p, w1) = load_progress cfg now w
      in if dict_contains eid (endpoints p)
         then
           (let p1 = p\<lparr>endpoints :=
                        dict_modify eid
                          (\<lambda>ep. ep\<lparr>status := ''in_progress'', started_at := Some t_started\<rparr>)
                          (endpoints p)\<rparr>;
                p2 = p1\<lparr>last_run := Some t_last_run\<rparr>
            in save_progress (w1\<lparr>self_progress := Some p2\<rparr>))
         else w1)"

definition mark_completed ::
  "AnalyzerConfig \<Rightarrow> string \<Rightarrow> string \<Rightarrow> string \<Rightarrow> string \<Rightarrow> world \<Rightarrow> world" where
  "mark_completed cfg now t_completed eid doc w =
     (let (p, w1) = load_progress cfg now w
      in if dict_contains eid (endpoints p)
         then
           (let p1 = p\<lparr>endpoints :=
                        dict_modify eid
                          (\<lambda>ep. ep\<lparr>status := ''completed'', doc_file := Some doc,
                                   completed_at := Some t_completed\<rparr>)
                          (endpoints p)\<rparr>;
                p2 = update_counts p1
            in save_progress (w1\<lparr>self_progress := Some p2\<rparr>))
         else w1)"

definition mark_failed ::
  "AnalyzerConfig \<Rightarrow> string \<Rightarrow> string \<Rightarrow> string \<Rightarrow> world \<Rightarrow> world" where
  "mark_failed cfg now eid msg w =
     (let (p, w1) = load_progress cfg now w
      in if dict_contains eid (endpoints p)
         then
           (let p1 = p\<lparr>endpoints :=
                        dict_modify eid
                          (\<lambda>ep. ep\<lparr>status := ''failed'', error_message := Some msg,
                                   retry_count := retry_count ep + 1\<rparr>)
                          (endpoints p)\<rparr>;
                p2 = update_counts p1
            in save_progress (w1\<lparr>self_progress := Some p2\<rparr>))
         else w1)"

definition reset_failed :: "AnalyzerConfig \<Rightarrow> string \<Rightarrow> world \<Rightarrow> world" where
  "reset_failed cfg now w =
     (let (p, w1) = load_progress cfg now w;
          p1 = p\<lparr>endpoints :=
                   map (\<lambda>(k, ep).
                          (k, if status ep = ''failed''
                              then ep\<lparr>status := ''pending'', error_message := None\<rparr>
                              else ep))
                       (endpoints p)\<rparr>;
          p2 = update_counts p1
      in save_progress (w1\<lparr>self_progress := Some p2\<rparr>))"

subsection \<open>Summary\<close>

text \<open>
  \<open>get_summary\<close> recomputes the counters of the cached store (in memory only) and
  reports them. The entry \<open>progress_percent\<close> is a rounded floating-point quotient of
  two of the reported counters and is left out.
\<close>

record summary =
  sum_project_name :: string
  sum_total_endpoints :: int
  sum_completed :: int
  sum_pending :: int
  sum_failed :: int
  sum_last_run :: "string option"

definition get_summary :: "AnalyzerConfig \<Rightarrow> string \<Rightarrow> world \<Rightarrow> summary \<times> world" where
  "get_summary cfg now w =
     (let (p, w1) = load_progress cfg now w;
          p1 = update_counts p
      in (\<lparr>sum_project_name = project_name p1,
           sum_total_endpoints = total_endpoints p1,
           sum_completed = completed_count p1,
           sum_pending = pending_count p1,
           sum_failed = failed_count p1,
           sum_last_run = last_run p1\<rparr>,
          w1\<lparr>self_progress := Some p1\<rparr>))"

subsection \<open>Calls on one manager\<close>

text \<open>
  The public operations of one \<open>ProgressManager\<close>, as values, so that a statement can
  range over all of them. Each carries its arguments and the clock readings it makes
  after loading.
\<close>

datatype call =
    Sync "EndpointInfo list"
  | NextBatch int
  | Claim string string string
  | Complete string string string
  | Fail string string
  | Reset
  | Summary

datatype reply = Done | Batch "EndpointProgress list" | Report summary

definition run_call :: "AnalyzerConfig \<Rightarrow> string \<Rightarrow> call \<Rightarrow> world \<Rightarrow> reply \<times> world" where
  "run_call cfg now c w =
     (case c of
        Sync eps \<Rightarrow> (Done, sync_endpoints cfg now eps w)
      | NextBatch n \<Rightarrow> (let (b, w') = get_next_endpoints cfg now n w in (Batch b, w'))
      | Claim t_started t_last_run eid \<Rightarrow>
          (Done, mark_in_progress cfg now t_started t_last_run eid w)
      | Complete t_completed eid doc \<Rightarrow> (Done, mark_completed cfg now t_completed eid doc w)
      | Fail eid msg \<Rightarrow> (Done, mark_failed cfg now eid msg w)
      | Reset \<Rightarrow> (Done, reset_failed cfg now w)
      | Summary \<Rightarrow> (let (r, w') = get_summary cfg now w in (Report r, w')))"

text \<open>
  Whether a call reaches \<open>save_progress\<close> on a store \<open>p\<close>: the three transitions on one
  record are guarded by \<open>if endpoint_id in progress.endpoints\<close>, the two queries never
  save.
\<close>

definition persists :: "AnalysisProgress \<Rightarrow> call \<Rightarrow> bool" where
  "persists p c =
     (case c of
        Sync eps \<Rightarrow> True
      | NextBatch n \<Rightarrow> False
      | Claim t_started t_last_run eid \<Rightarrow> dict_contains eid (endpoints p)
      | Complete t_completed eid doc \<Rightarrow> dict_contains eid (endpoints p)
      | Fail eid msg \<Rightarrow> dict_contains eid (endpoints p)
      | Reset \<Rightarrow> True
      | Summary \<Rightarrow> False)"

text \<open>The store a call made in state \<open>w\<close> acts on.\<close>

definition store_of :: "AnalyzerConfig \<Rightarrow> string \<Rightarrow> world \<Rightarrow> AnalysisProgress" where
  "store_of cfg now w = fst (load_progress cfg now w)"

text \<open>
  A sequence of calls on one manager, where the progress file may be replaced by someone
  else before each call (\<open>Some d\<close>: the file now holds \<open>d\<close>).
\<close>

fun run_calls ::
  "AnalyzerConfig \<Rightarrow> string \<Rightarrow> (progress_file option \<times> call) list \<Rightarrow> world \<Rightarrow> reply list \<times> world" where
  "run_calls cfg now [] w = ([], w)"
| "run_calls cfg now ((ext, c) # cs) w =
     (let w0 = (case ext of None \<Rightarrow> w | Some d \<Rightarrow> w\<lparr>disk := d\<rparr>);
          (r, w1) = run_call cfg now c w0;
          (rs, w2) = run_calls cfg now cs w1
      in (r # rs, w2))"

subsection \<open>Views of a state\<close>

text \<open>What \<open>save_progress\<close> leaves behind for a store \<open>q\<close>: \<open>q\<close> with its counters
  recomputed, in memory and in the file.\<close>

definition stored :: "AnalysisProgress \<Rightarrow> world" where
  "stored q = \<lparr>self_progress = Some (update_counts q), disk = Document (update_counts q)\<rparr>"

text \<open>The four counters of the cached store: completed, failed, pending, total.\<close>

definition counters_of :: "world \<Rightarrow> (int \<times> int \<times> int \<times> int) option" where
  "counters_of w =
     map_option (\<lambda>p. (completed_count p, failed_count p, pending_count p, total_endpoints p))
       (self_progress w)"

text \<open>
  The records whose status is none of the three that \<open>update_counts\<close> counts
  (\<open>in_progress\<close> is one such status).
\<close>

definition count_other :: "endpoint_dict \<Rightarrow> int" where
  "count_other d =
     int (length (filter (\<lambda>ep. status ep \<noteq> ''completed'' \<and> status ep \<noteq> ''failed'' \<and>
                                status ep \<noteq> ''pending'') (dict_values d)))"

text \<open>The record the cached store holds under an identity.\<close>

definition record_of :: "world \<Rightarrow> string \<Rightarrow> EndpointProgress option" where
  "record_of w k = (case self_progress w of None \<Rightarrow> None | Some p \<Rightarrow> dict_get (endpoints p) k)"

text \<open>The sort key and the candidates of \<open>get_next_endpoints\<close>.\<close>

definition batch_key :: "EndpointProgress \<Rightarrow> string \<times> string" where
  "batch_key x = (file_path x, endpoint_name x)"

definition pending_records :: "AnalysisProgress \<Rightarrow> EndpointProgress list" where
  "pending_records p = filter (\<lambda>ep. status ep = ''pending'') (dict_values (endpoints p))"

section \<open>Code reader (code\_reader.py)\<close>

subsection \<open>Strings and paths\<close>

definition startswith :: "string \<Rightarrow> string \<Rightarrow> bool" where
  "startswith s pre = (take (length pre) s = pre)"

definition endswith :: "string \<Rightarrow> string \<Rightarrow> bool" where
  "endswith s suf = (length suf \<le> length s \<and> drop (length s - length suf) s = suf)"

text \<open>\<open>str.split(sep)\<close> for a one-character separator: never empty, empty pieces kept.\<close>

fun split_on :: "char \<Rightarrow> string \<Rightarrow> string list" where
  "split_on c [] = [[]]"
| "split_on c (x # xs) =
     (if x = c then [] # split_on c xs
      else (case split_on c xs of
              [] \<Rightarrow> [[x]]
            | l # ls \<Rightarrow> (x # l) # ls))"

text \<open>\<open>sep.join(parts)\<close>.\<close>

fun join_with :: "string \<Rightarrow> string list \<Rightarrow> string" where
  "join_with sep [] = []"
| "join_with sep [p] = p"
| "join_with sep (p # q # ps) = p @ sep @ join_with sep (q # ps)"

text \<open>The functions of \<open>posixpath\<close> that \<open>read_file\<close> calls.\<close>

definition isabs :: "string \<Rightarrow> bool" where
  "isabs p = startswith p ''/''"

definition path_join :: "string \<Rightarrow> string \<Rightarrow> string" where
  "path_join a b =
     (if startswith b ''/'' then b
      else if a = [] \<or> endswith a ''/'' then a @ b
      else a @ ''/'' @ b)"

text \<open>The loop of \<open>normpath\<close> over the components, \<open>new_comps\<close> being the accumulator.\<close>

fun norm_comps :: "bool \<Rightarrow> string list \<Rightarrow> string list \<Rightarrow> string list" where
  "norm_comps initial_slashes new_comps [] = new_comps"
| "norm_comps initial_slashes new_comps (c # comps) =
     (if c = [] \<or> c = ''.'' then norm_comps initial_slashes new_comps comps
      else if c \<noteq> ''..'' \<or> (\<not> initial_slashes \<and> new_comps = [])
                \<or> (new_comps \<noteq> [] \<and> last new_comps = ''..'')
      then norm_comps initial_slashes (new_comps @ [c]) comps
      else if new_comps \<noteq> [] then norm_comps initial_slashes (butlast new_comps) comps
      else norm_comps initial_slashes new_comps comps)"

definition normpath :: "string \<Rightarrow> string" where
  "normpath p =
     (if p = [] then ''.''
      else
        (let initial_slashes =
               (if startswith p ''/''
                then (if startswith p ''//'' \<and> \<not> startswith p ''///'' then 2 else 1)
                else (0::nat));
             comps = norm_comps (0 < initial_slashes) [] (split_on (CHR ''/'') p);
             q = replicate initial_slashes (CHR ''/'') @ join_with ''/'' comps
         in if q = [] then ''.'' else q))"

text \<open>\<open>abspath\<close>; the working directory of the process is a parameter.\<close>

definition abspath :: "string \<Rightarrow> string \<Rightarrow> string" where
  "abspath cwd p = normpath (if isabs p then p else path_join cwd p)"

text \<open>\<open>os.path.splitext(p)[1]\<close>: from the last dot of the last component, leading dots
  of the component not counting.\<close>

definition splitext_ext :: "string \<Rightarrow> string" where
  "splitext_ext p =
     (let base = basename p;
          stem = dropWhile (\<lambda>c. c = CHR ''.'') base
      in if CHR ''.'' \<in> set stem
         then CHR ''.'' # rev (takeWhile (\<lambda>c. c \<noteq> CHR ''.'') (rev base))
         else [])"

text \<open>\<open>os.path.relpath(path, start)\<close>.\<close>

fun common_prefix_len :: "string list \<Rightarrow> string list \<Rightarrow> nat" where
  "common_prefix_len (x # xs) (y # ys) = (if x = y then Suc (common_prefix_len xs ys) else 0)"
| "common_prefix_len xs ys = 0"

definition relpath :: "string \<Rightarrow> string \<Rightarrow> string \<Rightarrow> string" where
  "relpath cwd p start =
     (let start_list = filter (\<lambda>x. x \<noteq> []) (split_on (CHR ''/'') (abspath cwd start));
          path_list = filter (\<lambda>x. x \<noteq> []) (split_on (CHR ''/'') (abspath cwd p));
          i = common_prefix_len start_list path_list;
          rel_list = replicate (length start_list - i) ''..'' @ drop i path_list
      in if rel_list = [] then ''.'' else join_with ''/'' rel_list)"

text \<open>
  Whether a normalised absolute path lies in a directory or is the directory itself: the
  components of the directory are the first components of the path.
\<close>

definition path_components :: "string \<Rightarrow> string list" where
  "path_components p = filter (\<lambda>x. x \<noteq> []) (split_on (CHR ''/'') p)"

definition inside_directory :: "string \<Rightarrow> string \<Rightarrow> bool" where
  "inside_directory root p =
     (take (length (path_components root)) (path_components p) = path_components root)"

subsection \<open>Files\<close>

record CodeFile =
  cf_path :: string
  cf_relative_path :: string
  cf_content :: string
  cf_language :: string
  cf_size :: int

definition LANG_MAP :: "(string \<times> string) list" where
  "LANG_MAP =
     [(''.py'', ''python''), (''.go'', ''go''), (''.java'', ''java''),
      (''.js'', ''javascript''), (''.ts'', ''typescript''), (''.rs'', ''rust''),
      (''.cpp'', ''cpp''), (''.c'', ''c''), (''.h'', ''c''), (''.proto'', ''protobuf''),
      (''.yaml'', ''yaml''), (''.yml'', ''yaml''), (''.json'', ''json'')]"

definition language_of :: "string \<Rightarrow> string" where
  "language_of ext = (case map_of LANG_MAP ext of None \<Rightarrow> ''unknown'' | Some l \<Rightarrow> l)"

datatype py_error = PermissionError | AttributeError | IndexError

text \<open>
  The reader's surroundings and state: the working directory, the file system, and the
  attribute \<open>self._file_cache\<close>. The file system is asked with the path exactly as the
  program passes it to \<open>os.path.exists\<close> and \<open>open\<close>: \<open>files\<close> gives the text
  \<open>f.read()\<close> returns when that path resolves to a readable regular file (the operating
  system resolves it: two spellings of one file are two keys, and a path through a
  directory that does not exist has no entry). A path without an entry makes
  \<open>read_file\<close> return \<open>None\<close>, through line 196 or through the \<open>except\<close> of line 213.
\<close>

record reader =
  cwd :: string
  files :: "string \<rightharpoonup> string"
  file_cache :: "(string \<times> CodeFile) list"

definition read_file ::
  "string \<Rightarrow> string \<Rightarrow> reader \<Rightarrow> (py_error + CodeFile option) \<times> reader" where
  "read_file root fp rd =
     (case map_of (file_cache rd) fp of
        Some cf \<Rightarrow> (Inr (Some cf), rd)
      | None \<Rightarrow>
          (let full_path = (if \<not> isabs fp then path_join root fp else fp)
           in if \<not> startswith (abspath (cwd rd) full_path) (abspath (cwd rd) root)
              then (Inl PermissionError, rd)
              else
                (case files rd full_path of
                   None \<Rightarrow> (Inr None, rd)
                 | Some content \<Rightarrow>
                     (let code_file =
                            \<lparr>cf_path = full_path,
                             cf_relative_path = relpath (cwd rd) full_path root,
                             cf_content = content,
                             cf_language = language_of (splitext_ext full_path),
                             cf_size = int (length content)\<rparr>
                      in (Inr (Some code_file),
                          rd\<lparr>file_cache := file_cache rd @ [(fp, code_file)]\<rparr>)))))"

subsection \<open>Regular expressions\<close>

text \<open>
  The patterns of the reader use literal text, character classes, greedy repetition of a
  single character class, optional parts, alternation and capture groups. They are
  matched as Python's \<open>re\<close> matches them: by backtracking, leftmost alternative and
  longest repetition first. Strings are ASCII text: a character outside ASCII is neither
  a word character nor white space.
\<close>

datatype cls =
    Lit char
  | Word
  | Space
  | Dot
  | OneOf "cls list"
  | NoneOf "cls list"

fun cls_matches :: "cls \<Rightarrow> char \<Rightarrow> bool" where
  "cls_matches (Lit c) x = (x = c)"
| "cls_matches Word x =
     ((CHR ''a'' \<le> x \<and> x \<le> CHR ''z'') \<or> (CHR ''A'' \<le> x \<and> x \<le> CHR ''Z'')
      \<or> (CHR ''0'' \<le> x \<and> x \<le> CHR ''9'') \<or> x = CHR ''_'')"
| "cls_matches Space x =
     (x = CHR '' '' \<or> (CHR 0x09 \<le> x \<and> x \<le> CHR 0x0D) \<or> (CHR 0x1C \<le> x \<and> x \<le> CHR 0x1F))"
| "cls_matches Dot x = (x \<noteq> CHR ''\<newline>'')"
| "cls_matches (OneOf cs) x = (\<exists>c \<in> set cs. cls_matches c x)"
| "cls_matches (NoneOf cs) x = (\<not> (\<exists>c \<in> set cs. cls_matches c x))"

datatype rx =
    Emp
  | Atom cls
  | Str string
  | Many cls
  | Many1 cls
  | Opt rx
  | Seq rx rx
  | Alt rx rx
  | Group nat rx

text \<open>
  A match in progress: the input still to be read, and the groups captured so far
  (the latest capture first).
\<close>

type_synonym captures = "(nat \<times> string) list"
type_synonym mstate = "string \<times> captures"

text \<open>What is left after \<open>c*\<close>, the longest repetition first.\<close>

fun many :: "cls \<Rightarrow> string \<Rightarrow> string list" where
  "many c [] = [[]]"
| "many c (x # xs) = (if cls_matches c x then many c xs @ [x # xs] else [x # xs])"

text \<open>All ways to match a pattern at the start of the input, in the order in which a
  backtracking matcher tries them.\<close>

fun rx_match :: "rx \<Rightarrow> mstate \<Rightarrow> mstate list" where
  "rx_match Emp st = [st]"
| "rx_match (Atom c) (s, g) =
     (case s of [] \<Rightarrow> [] | x # xs \<Rightarrow> if cls_matches c x then [(xs, g)] else [])"
| "rx_match (Str l) (s, g) = (if startswith s l then [(drop (length l) s, g)] else [])"
| "rx_match (Many c) (s, g) = map (\<lambda>r. (r, g)) (many c s)"
| "rx_match (Many1 c) (s, g) =
     (case s of
        [] \<Rightarrow> []
      | x # xs \<Rightarrow> if cls_matches c x then map (\<lambda>r. (r, g)) (many c xs) else [])"
| "rx_match (Opt r) st = rx_match r st @ [st]"
| "rx_match (Seq a b) st = concat (map (rx_match b) (rx_match a st))"
| "rx_match (Alt a b) st = rx_match a st @ rx_match b st"
| "rx_match (Group n r) (s, g) =
     map (\<lambda>(s', g'). (s', (n, take (length s - length s') s) # g')) (rx_match r (s, g))"

text \<open>The match at the start of the input, if any: its length and its captures.\<close>

definition match_here :: "rx \<Rightarrow> string \<Rightarrow> (nat \<times> captures) option" where
  "match_here r s =
     (case rx_match r (s, []) of
        [] \<Rightarrow> None
      | (s', g) # _ \<Rightarrow> Some (length s - length s', g))"



text \<open>
  \<open>re.finditer\<close>: the non-overlapping matches from left to right, each with the
  position where it starts. After a match the search goes on where the match ended (no
  pattern of the reader matches the empty string; an empty match would move on by one
  character).
\<close>

function finditer_from :: "rx \<Rightarrow> nat \<Rightarrow> string \<Rightarrow> (nat \<times> captures) list" where
  "finditer_from r pos s =
     (case match_here r s of
        Some (n, g) \<Rightarrow>
          (pos, g) # (if s = [] then []
                      else finditer_from r (pos + max n 1) (drop (max n 1) s))
      | None \<Rightarrow>
          (case s of [] \<Rightarrow> [] | x # xs \<Rightarrow> finditer_from r (Suc pos) xs))"
  by pat_completeness auto
termination
  by (relation "measure (\<lambda>(r, pos, s). length s)") auto

definition finditer :: "rx \<Rightarrow> string \<Rightarrow> (nat \<times> captures) list" where
  "finditer r s = finditer_from r 0 s"


text \<open>Writing patterns: a sequence, a choice of literal words, common classes.\<close>

definition seq :: "rx list \<Rightarrow> rx" where
  "seq rs = foldr Seq rs Emp"




subsection \<open>Pattern tables\<close>








definition proto_service_rule :: rx where
  "proto_service_rule =
     seq [Str ''service'', Many1 Space, Group 1 (Many1 Word), Many Space, Str ''{'']"

definition proto_rpc_rule :: rx where
  "proto_rpc_rule = seq [Str ''rpc'', Many1 Space, Group 1 (Many1 Word), Many Space, Str ''('']"

definition GRPC_PATTERNS :: "(string \<times> (rx \<times> string) list) list" where
  "GRPC_PATTERNS =
     [(''protobuf'',
         [(proto_service_rule, ''service''), (proto_rpc_rule, ''rpc'')]),
      (''go'',
         [(seq [Str ''func'', Many Space, Str ''('', Many1 (NoneOf [Lit (CHR '')'')]), Str '')'',
                Many Space, Group 1 (Many1 Word), Many Space, Str ''('',
                Many (NoneOf [Lit (CHR '')'')]), Str ''pb.'', Many1 Word], ''grpc_impl''),
          (seq [Str ''Register'', Group 1 (Many1 Word), Str ''Server'', Many Space, Str ''(''],
           ''grpc_register'')]),
      (''python'',
         [(seq [Str ''class'', Many1 Space, Group 1 (Many1 Word), Str ''Servicer'', Many Space,
                Str ''(''], ''grpc_servicer''),
          (seq [Str ''def'', Many1 Space, Group 1 (Many1 Word), Many Space, Str ''(self,'',
                Many Space, Str ''request''], ''grpc_method'')]),
      (''java'',
         [(seq [Str ''class'', Many1 Space, Group 1 (Many1 Word), Many1 Space, Str ''extends'',
                Many1 Space, Many1 Word, Str ''Grpc.'', Many1 Word, Str ''ImplBase''],
           ''grpc_impl''),
          (seq [Str ''public'', Many1 Space, Many1 Word, Many1 Space, Group 1 (Many1 Word),
                Many Space, Str ''('', Many (NoneOf [Lit (CHR '')'')]), Many1 Word,
                Str ''Request''], ''grpc_method'')])]"






subsection \<open>Detection\<close>













text \<open>The line of a position: the newlines before it, plus one.\<close>

definition line_of :: "string \<Rightarrow> nat \<Rightarrow> int" where
  "line_of content start =
     int (length (filter (\<lambda>c. c = CHR ''\<newline>'') (take start content))) + 1"

definition table_get :: "(string \<times> (rx \<times> string) list) list \<Rightarrow> string \<Rightarrow> (rx \<times> string) list" where
  "table_get table language = (case map_of table language of None \<Rightarrow> [] | Some rules \<Rightarrow> rules)"




text \<open>
  \<open>_find_grpc_endpoints\<close>: the outer loop runs over the patterns of the language, the
  inner loop over all matches of one pattern in the file; \<open>current_service\<close> and the
  result list are carried through both. Group 1 stands outside every optional part of
  every pattern of the table, so \<open>match.group(1)\<close> is a string.
\<close>

definition grpc_step ::
  "CodeFile \<Rightarrow> string \<Rightarrow> string option \<times> EndpointInfo list \<Rightarrow> nat \<times> captures
     \<Rightarrow> string option \<times> EndpointInfo list" where
  "grpc_step code_file pattern_type acc m =
     (let line_num = line_of (cf_content code_file) (fst m);
          name = fmt_opt (map_of (snd m) 1);
          current_service = fst acc;
          found = snd acc
      in if pattern_type = ''service'' then (Some name, found)
         else if pattern_type \<in> set [''rpc'', ''grpc_method'', ''grpc_impl'']
         then (current_service,
               found @
                 [\<lparr>ei_name = name,
                   ei_type = ''grpc'',
                   ei_method = None,
                   ei_path = None,
                   ei_file_path = cf_relative_path code_file,
                   ei_line_number = line_num,
                   ei_function_name = name,
                   ei_service_name = current_service,
                   ei_description = None\<rparr>])
         else acc)"

definition find_grpc_endpoints :: "CodeFile \<Rightarrow> EndpointInfo list" where
  "find_grpc_endpoints code_file =
     snd (foldl (\<lambda>acc (pattern, pattern_type).
                   foldl (grpc_step code_file pattern_type) acc
                     (finditer pattern (cf_content code_file)))
            (None, [])
            (table_get GRPC_PATTERNS (cf_language code_file)))"





section \<open>Concrete inputs\<close>

subsection \<open>Stores\<close>

definition example_cfg :: AnalyzerConfig where
  "example_cfg = \<lparr>cfg_code_dir = ''/srv/shop'', cfg_output_dir = ''/srv/docs'',
                   cfg_progress_file = ''analysis_progress.json''\<rparr>"

definition example_record :: "string \<Rightarrow> string \<Rightarrow> string \<Rightarrow> string \<Rightarrow> EndpointProgress" where
  "example_record eid nm fp st =
     \<lparr>endpoint_id = eid, endpoint_name = nm, endpoint_type = ''http'', file_path = fp,
      status = st, doc_file = None, started_at = None, completed_at = None,
      error_message = None, retry_count = 0\<rparr>"

definition example_store :: "endpoint_dict \<Rightarrow> AnalysisProgress" where
  "example_store d = (create_new_progress example_cfg ''2024-01-08T12:00:00'')\<lparr>endpoints := d\<rparr>"

definition example_world :: "endpoint_dict \<Rightarrow> world" where
  "example_world d = \<lparr>self_progress = Some (example_store d), disk = Document (example_store d)\<rparr>"

text \<open>Concrete candidates, records and stores.\<close>

definition example_info :: "string \<Rightarrow> string \<Rightarrow> string \<Rightarrow> string \<Rightarrow> EndpointInfo" where
  "example_info nm meth pth fp =
     \<lparr>ei_name = nm, ei_type = ''http'', ei_method = Some meth, ei_path = Some pth,
      ei_file_path = fp, ei_line_number = 1, ei_function_name = nm,
      ei_service_name = None, ei_description = None\<rparr>"

definition example_pending :: EndpointProgress where
  "example_pending = example_record ''X'' ''getX'' ''a.go'' ''pending''"

definition example_done :: EndpointProgress where
  "example_done = (example_record ''http_GET__x'' ''getX'' ''a.go'' ''completed'')
                     \<lparr>doc_file := Some ''http_getX.md''\<rparr>"

definition example_queue :: endpoint_dict where
  "example_queue =
     [(''B'', example_record ''B'' ''beta'' ''b.go'' ''pending''),
      (''C'', example_record ''C'' ''gamma'' ''a.go'' ''in_progress''),
      (''A'', example_record ''A'' ''alpha'' ''a.go'' ''pending'')]"

subsection \<open>Files\<close>

text \<open>
  A project in \<open>/srv/shop\<close> with one file, and a sibling directory \<open>/srv/shop-secrets\<close>
  with one file, which the second key reaches through the project directory.
\<close>

definition example_reader :: reader where
  "example_reader =
     \<lparr>cwd = ''/srv'',
      files = [''/srv/shop-secrets/keys.py'' \<mapsto> ''API_KEY = 1'',
               ''/srv/shop/../shop-secrets/keys.py'' \<mapsto> ''API_KEY = 1'',
               ''/srv/shop/main.py'' \<mapsto> ''print(1)''],
      file_cache = []\<rparr>"


definition proto_file :: "string \<Rightarrow> string \<Rightarrow> int \<Rightarrow> string list \<Rightarrow> CodeFile" where
  "proto_file p rel n lines =
     \<lparr>cf_path = p, cf_relative_path = rel, cf_content = join_with [CHR ''\<newline>''] lines,
      cf_language = ''protobuf'', cf_size = n\<rparr>"










definition proto_one_service :: "string list" where
  "proto_one_service =
     [''service Users {'', [], [], ''rpc GetUser(GetUserRequest) returns (User);'', ''}'']"

definition proto_two_services :: "string list" where
  "proto_two_services =
     [''service Users {'', ''rpc GetUser(Req) returns (User);'', ''}'',
      ''service Orders {'', ''rpc GetOrder(Req) returns (Order);'', ''}'']"

definition proto_rpc_first :: "string list" where
  "proto_rpc_first =
     [''rpc Ping(Req) returns (Res);'', ''service Users {'', ''}'']"

definition grpc_candidate :: "string \<Rightarrow> string \<Rightarrow> int \<Rightarrow> string option \<Rightarrow> EndpointInfo" where
  "grpc_candidate rel nm ln svc =
     \<lparr>ei_name = nm, ei_type = ''grpc'', ei_method = None, ei_path = None,
      ei_file_path = rel, ei_line_number = ln, ei_function_name = nm,
      ei_service_name = svc, ei_description = None\<rparr>"

section \<open>Properties of the progress store\<close>

subsection \<open>Loading and saving\<close>

lemma load_progress_cached:
  "self_progress (snd (load_progress cfg now w)) = Some (fst (load_progress cfg now w))"
  by (simp add: load_progress_def Let_def split: option.splits progress_file.splits)

lemma load_progress_disk: "disk (snd (load_progress cfg now w)) = disk w"
  by (simp add: load_progress_def Let_def split: option.splits progress_file.splits)

lemma load_progress_Some:
  "self_progress w = Some p \<Longrightarrow> load_progress cfg now w = (p, w)"
  by (simp add: load_progress_def)

lemma load_progress_world:
  "snd (load_progress cfg now (w::world)) =
     \<lparr>self_progress = Some (store_of cfg now w), disk = disk w\<rparr>"
  by (cases w)
    (simp add: load_progress_def store_of_def Let_def split: option.splits progress_file.splits)

lemma store_of_cached: "self_progress w = Some p \<Longrightarrow> store_of cfg now w = p"
  by (simp add: store_of_def load_progress_def)

lemma store_of_world: "store_of cfg now \<lparr>self_progress = Some p, disk = d\<rparr> = p"
  by (simp add: store_of_def load_progress_def)

lemma store_of_stored: "store_of cfg now (stored q) = update_counts q"
  by (simp add: store_of_def stored_def load_progress_def)

lemma store_of_example_world: "store_of cfg now (example_world d) = example_store d"
  by (simp add: store_of_def load_progress_def example_world_def)

lemma save_progress_Some:
  "self_progress w = Some p \<Longrightarrow>
   save_progress (w::world) =
     \<lparr>self_progress = Some (update_counts p), disk = Document (update_counts p)\<rparr>"
  by (simp add: save_progress_def save_progress_steps_def Let_def)

lemma save_progress_None: "self_progress w = None \<Longrightarrow> save_progress w = w"
  by (simp add: save_progress_def save_progress_steps_def)

lemma update_counts_idem: "update_counts (update_counts p) = update_counts p"
  by (simp add: update_counts_def)

lemma endpoints_update_counts: "endpoints (update_counts p) = endpoints p"
  by (simp add: update_counts_def)

lemma total_update_counts: "total_endpoints (update_counts p) = int (length (endpoints p))"
  by (simp add: update_counts_def)

lemma stored_update_counts: "stored (update_counts q) = stored q"
  by (simp add: stored_def update_counts_idem)

lemma update_counts_endpoints_upd:
  "(update_counts q)\<lparr>endpoints := endpoints q\<rparr> = update_counts q"
  by (simp add: update_counts_def)

subsection \<open>Dictionaries\<close>

lemma dict_get_modify:
  "dict_get (dict_modify k f d) k' =
     (if k' = k then map_option f (dict_get d k) else dict_get d k')"
  unfolding dict_get_def dict_modify_def by (induction d) auto

lemma keys_dict_modify: "map fst (dict_modify k f d) = map fst d"
  unfolding dict_modify_def by (induction d) auto

lemma dict_contains_get: "dict_contains k d = (dict_get d k \<noteq> None)"
  unfolding dict_contains_def dict_get_def by (simp add: map_of_eq_None_iff)

lemma dict_get_map_values:
  "dict_get (map (\<lambda>(k, ep). (k, g ep)) d) k = map_option g (dict_get d k)"
  unfolding dict_get_def by (induction d) auto

lemma dict_get_reset:
  "dict_get (map (\<lambda>(k, ep). (k, if status ep = ''failed''
                            then ep\<lparr>status := ''pending'', error_message := None\<rparr> else ep)) d) k
   = map_option (\<lambda>ep. if status ep = ''failed''
                       then ep\<lparr>status := ''pending'', error_message := None\<rparr> else ep) (dict_get d k)"
  unfolding dict_get_def by (induction d) auto

lemma dict_get_append_present:
  "dict_get d k = Some r \<Longrightarrow> dict_get (d @ new) k = Some r"
  unfolding dict_get_def by simp

lemma dict_contains_append: "dict_contains k d \<Longrightarrow> dict_contains k (d @ new)"
  unfolding dict_contains_def by auto

subsection \<open>Each operation in terms of the store it loads\<close>

lemma sync_endpoints_eq:
  "sync_endpoints cfg now eps w =
     stored ((store_of cfg now w)
       \<lparr>endpoints := add_new_endpoints eps (endpoints (store_of cfg now w))\<rparr>)"
  by (simp add: sync_endpoints_def stored_def split_beta Let_def load_progress_world
      save_progress_Some update_counts_idem store_of_def)

lemma mark_in_progress_eq:
  "mark_in_progress cfg now ts tr k w =
     (if dict_contains k (endpoints (store_of cfg now w))
      then stored ((store_of cfg now w)\<lparr>endpoints :=
              dict_modify k (\<lambda>ep. ep\<lparr>status := ''in_progress'', started_at := Some ts\<rparr>)
                (endpoints (store_of cfg now w)), last_run := Some tr\<rparr>)
      else \<lparr>self_progress = Some (store_of cfg now w), disk = disk w\<rparr>)"
  by (simp add: mark_in_progress_def stored_def split_beta Let_def load_progress_world
      save_progress_Some store_of_def)

lemma mark_completed_eq:
  "mark_completed cfg now tc k doc w =
     (if dict_contains k (endpoints (store_of cfg now w))
      then stored ((store_of cfg now w)\<lparr>endpoints :=
              dict_modify k (\<lambda>ep. ep\<lparr>status := ''completed'', doc_file := Some doc,
                                   completed_at := Some tc\<rparr>)
                (endpoints (store_of cfg now w))\<rparr>)
      else \<lparr>self_progress = Some (store_of cfg now w), disk = disk w\<rparr>)"
  by (simp add: mark_completed_def stored_def split_beta Let_def load_progress_world
      save_progress_Some store_of_def update_counts_idem)

lemma mark_failed_eq:
  "mark_failed cfg now k msg w =
     (if dict_contains k (endpoints (store_of cfg now w))
      then stored ((store_of cfg now w)\<lparr>endpoints :=
              dict_modify k (\<lambda>ep. ep\<lparr>status := ''failed'', error_message := Some msg,
                                   retry_count := retry_count ep + 1\<rparr>)
                (endpoints (store_of cfg now w))\<rparr>)
      else \<lparr>self_progress = Some (store_of cfg now w), disk = disk w\<rparr>)"
  by (simp add: mark_failed_def stored_def split_beta Let_def load_progress_world
      save_progress_Some store_of_def update_counts_idem)

lemma reset_failed_eq:
  "reset_failed cfg now w =
     stored ((store_of cfg now w)\<lparr>endpoints :=
        map (\<lambda>(k, ep). (k, if status ep = ''failed''
                            then ep\<lparr>status := ''pending'', error_message := None\<rparr> else ep))
          (endpoints (store_of cfg now w))\<rparr>)"
  by (simp add: reset_failed_def stored_def split_beta Let_def load_progress_world
      save_progress_Some store_of_def update_counts_idem)

lemma get_next_endpoints_eq:
  "get_next_endpoints cfg now n w =
     (py_slice_to n (sort_key batch_key (pending_records (store_of cfg now w))),
      \<lparr>self_progress = Some (store_of cfg now w), disk = disk w\<rparr>)"
proof -
  have "batch_key = (\<lambda>x. (file_path x, endpoint_name x))"
    by (rule ext) (simp add: batch_key_def)
  then show ?thesis
    by (simp add: get_next_endpoints_def split_beta Let_def load_progress_world
        pending_records_def store_of_def)
qed

lemma get_next_endpoints_world:
  "snd (get_next_endpoints cfg now n w) = \<lparr>self_progress = Some (store_of cfg now w), disk = disk w\<rparr>"
  by (simp add: get_next_endpoints_def split_beta Let_def load_progress_world)

lemma get_summary_eq:
  "get_summary cfg now w =
     (\<lparr>sum_project_name = project_name (store_of cfg now w),
       sum_total_endpoints = total_endpoints (update_counts (store_of cfg now w)),
       sum_completed = completed_count (update_counts (store_of cfg now w)),
       sum_pending = pending_count (update_counts (store_of cfg now w)),
       sum_failed = failed_count (update_counts (store_of cfg now w)),
       sum_last_run = last_run (store_of cfg now w)\<rparr>,
      \<lparr>self_progress = Some (update_counts (store_of cfg now w)), disk = disk w\<rparr>)"
  by (simp add: get_summary_def split_beta Let_def load_progress_world store_of_def
      update_counts_def)

lemma get_summary_world:
  "snd (get_summary cfg now w)
     = \<lparr>self_progress = Some (update_counts (store_of cfg now w)), disk = disk w\<rparr>"
  by (simp add: get_summary_def split_beta Let_def load_progress_world store_of_def)

lemma run_call_persists:
  assumes "persists (store_of cfg now w) c"
  shows "\<exists>q. snd (run_call cfg now c w) = stored q"
  using assms
  by (cases c) (auto simp: run_call_def persists_def sync_endpoints_eq mark_in_progress_eq
      mark_completed_eq mark_failed_eq reset_failed_eq)

lemma run_call_loads: "self_progress (snd (run_call cfg now c w)) \<noteq> None"
  by (cases c)
    (simp_all add: run_call_def split_beta sync_endpoints_eq mark_in_progress_eq
      mark_completed_eq mark_failed_eq reset_failed_eq get_next_endpoints_eq
      get_summary_eq stored_def)

lemma run_call_disk:
  "disk (snd (run_call cfg now c w)) =
     (if persists (store_of cfg now w) c
      then (case self_progress (snd (run_call cfg now c w)) of
              Some p' \<Rightarrow> Document p' | None \<Rightarrow> Missing)
      else disk w)"
  by (cases c)
    (simp_all add: run_call_def split_beta sync_endpoints_eq mark_in_progress_eq
      mark_completed_eq mark_failed_eq reset_failed_eq get_next_endpoints_eq
      get_summary_eq stored_def persists_def)

lemma record_of_stored: "record_of (stored q) k = dict_get (endpoints q) k"
  by (simp add: record_of_def stored_def endpoints_update_counts)

lemma record_of_loaded:
  "record_of \<lparr>self_progress = Some p, disk = d\<rparr> k = dict_get (endpoints p) k"
  by (simp add: record_of_def)

subsection \<open>Claiming a record (C1)\<close>

text \<open>
  C1 (as amended). \<open>mark_in_progress\<close> never fails and rejects nothing. For an identity
  that is not in the store it returns normally, changes no record and persists nothing
  (the file is left as it was). For an existing record of any status, \<open>in_progress\<close>
  and \<open>completed\<close> included, it sets the status to \<open>in_progress\<close>, overwrites the start
  timestamp, sets \<open>last_run\<close>, leaves every other record alone and persists the store.
\<close>

theorem mark_in_progress_never_rejects:
  "(\<not> dict_contains k (endpoints (store_of cfg now w)) \<longrightarrow>
      mark_in_progress cfg now ts tr k w
        = \<lparr>self_progress = Some (store_of cfg now w), disk = disk w\<rparr>)
   \<and> (\<forall>r. dict_get (endpoints (store_of cfg now w)) k = Some r \<longrightarrow>
      (\<exists>p'. mark_in_progress cfg now ts tr k w = \<lparr>self_progress = Some p', disk = Document p'\<rparr>
          \<and> dict_get (endpoints p') k = Some (r\<lparr>status := ''in_progress'', started_at := Some ts\<rparr>)
          \<and> last_run p' = Some tr
          \<and> (\<forall>k'. k' \<noteq> k \<longrightarrow>
                dict_get (endpoints p') k' = dict_get (endpoints (store_of cfg now w)) k')))"
proof (intro conjI impI allI)
  assume "\<not> dict_contains k (endpoints (store_of cfg now w))"
  then show "mark_in_progress cfg now ts tr k w
        = \<lparr>self_progress = Some (store_of cfg now w), disk = disk w\<rparr>"
    by (simp add: mark_in_progress_eq)
next
  fix r
  assume r: "dict_get (endpoints (store_of cfg now w)) k = Some r"
  let ?p = "store_of cfg now w"
  let ?q = "?p\<lparr>endpoints :=
              dict_modify k (\<lambda>ep. ep\<lparr>status := ''in_progress'', started_at := Some ts\<rparr>)
                (endpoints ?p), last_run := Some tr\<rparr>"
  from r have c: "dict_contains k (endpoints ?p)" by (simp add: dict_contains_get)
  then have m: "mark_in_progress cfg now ts tr k w = stored ?q"
    by (simp add: mark_in_progress_eq)
  have 1: "mark_in_progress cfg now ts tr k w
            = \<lparr>self_progress = Some (update_counts ?q), disk = Document (update_counts ?q)\<rparr>"
    unfolding m by (simp add: stored_def)
  have 2: "dict_get (endpoints (update_counts ?q)) k
            = Some (r\<lparr>status := ''in_progress'', started_at := Some ts\<rparr>)"
    using r by (simp add: endpoints_update_counts dict_get_modify)
  have 3: "last_run (update_counts ?q) = Some tr" by (simp add: update_counts_def)
  have 4: "\<forall>k'. k' \<noteq> k \<longrightarrow> dict_get (endpoints (update_counts ?q)) k' = dict_get (endpoints ?p) k'"
    by (simp add: endpoints_update_counts dict_get_modify)
  from 1 2 3 4 show "\<exists>p'. mark_in_progress cfg now ts tr k w = \<lparr>self_progress = Some p', disk = Document p'\<rparr>
          \<and> dict_get (endpoints p') k = Some (r\<lparr>status := ''in_progress'', started_at := Some ts\<rparr>)
          \<and> last_run p' = Some tr
          \<and> (\<forall>k'. k' \<noteq> k \<longrightarrow>
                dict_get (endpoints p') k' = dict_get (endpoints (store_of cfg now w)) k')"
    by blast
qed

theorem mark_in_progress_never_rejects_witness:
  "\<not> dict_contains ''Y'' (endpoints (store_of example_cfg ''t0''
        (example_world [(''X'', example_record ''X'' ''getX'' ''a.go'' ''completed'')])))
   \<and> mark_in_progress example_cfg ''t0'' ''t1'' ''t2'' ''Y''
        (example_world [(''X'', example_record ''X'' ''getX'' ''a.go'' ''completed'')])
      = example_world [(''X'', example_record ''X'' ''getX'' ''a.go'' ''completed'')]
   \<and> dict_get (endpoints (store_of example_cfg ''t0''
        (example_world [(''X'', example_record ''X'' ''getX'' ''a.go'' ''completed'')]))) ''X''
      = Some (example_record ''X'' ''getX'' ''a.go'' ''completed'')
   \<and> (\<exists>p'. mark_in_progress example_cfg ''t0'' ''t1'' ''t2'' ''X''
          (example_world [(''X'', example_record ''X'' ''getX'' ''a.go'' ''completed'')])
          = \<lparr>self_progress = Some p', disk = Document p'\<rparr>
        \<and> dict_get (endpoints p') ''X''
            = Some ((example_record ''X'' ''getX'' ''a.go'' ''completed'')
                      \<lparr>status := ''in_progress'', started_at := Some ''t1''\<rparr>))"
proof -
  let ?w = "example_world [(''X'', example_record ''X'' ''getX'' ''a.go'' ''completed'')]"
  have a: "\<not> dict_contains ''Y'' (endpoints (store_of example_cfg ''t0'' ?w))"
    by (simp add: store_of_example_world example_store_def dict_contains_def)
  have b: "dict_get (endpoints (store_of example_cfg ''t0'' ?w)) ''X''
      = Some (example_record ''X'' ''getX'' ''a.go'' ''completed'')"
    by (simp add: store_of_example_world example_store_def dict_get_def)
  have c: "\<lparr>self_progress = Some (store_of example_cfg ''t0'' ?w), disk = disk ?w\<rparr> = ?w"
    by (simp add: store_of_def load_progress_def example_world_def)
  note t = mark_in_progress_never_rejects [of _ example_cfg "''t0''" ?w "''t1''" "''t2''"]
  from t [of "''Y''"] a c have d: "mark_in_progress example_cfg ''t0'' ''t1'' ''t2'' ''Y'' ?w = ?w"
    by simp
  from t [of "''X''"] b have e: "\<exists>p'. mark_in_progress example_cfg ''t0'' ''t1'' ''t2'' ''X'' ?w
          = \<lparr>self_progress = Some p', disk = Document p'\<rparr>
        \<and> dict_get (endpoints p') ''X''
            = Some ((example_record ''X'' ''getX'' ''a.go'' ''completed'')
                      \<lparr>status := ''in_progress'', started_at := Some ''t1''\<rparr>)"
    by blast
  from a b d e show ?thesis by blast
qed

text \<open>
  Claiming a completed record is not rejected: the record becomes \<open>in_progress\<close>.
  Claiming a record a second time is not rejected either: the start timestamp of the
  first claim is overwritten. Claiming an identity the store does not have returns the
  state unchanged.
\<close>

theorem double_claim_counterexample:
  "record_of (mark_in_progress example_cfg ''t0'' ''t1'' ''t2'' ''X''
       (example_world [(''X'', example_record ''X'' ''getX'' ''a.go'' ''completed'')])) ''X''
     = Some ((example_record ''X'' ''getX'' ''a.go'' ''completed'')
               \<lparr>status := ''in_progress'', started_at := Some ''t1''\<rparr>)
   \<and> record_of (mark_in_progress example_cfg ''t0'' ''t3'' ''t4'' ''X''
         (mark_in_progress example_cfg ''t0'' ''t1'' ''t2'' ''X''
           (example_world [(''X'', example_pending)]))) ''X''
     = Some (example_pending\<lparr>status := ''in_progress'', started_at := Some ''t3''\<rparr>)
   \<and> mark_in_progress example_cfg ''t0'' ''t1'' ''t2'' ''Y''
       (example_world [(''X'', example_record ''X'' ''getX'' ''a.go'' ''completed'')])
     = example_world [(''X'', example_record ''X'' ''getX'' ''a.go'' ''completed'')]"
  by code_simp

subsection \<open>Counters (C2)\<close>

lemma count_partition:
  "count_status ''completed'' d + count_status ''failed'' d + count_status ''pending'' d
     + count_other d = int (length d)"
  unfolding count_status_def count_other_def dict_values_def
  by (induction d) auto

lemma update_counts_sum:
  "completed_count (update_counts p) + failed_count (update_counts p)
     + pending_count (update_counts p) + count_other (endpoints p)
   = total_endpoints (update_counts p)"
  using count_partition [of "endpoints p"] by (simp add: update_counts_def)

text \<open>
  C2 (as amended). After every call that mutates the store and reaches the save (sync,
  claim, complete, fail, reset), the cached store is the persisted one, and its counters
  satisfy completed + failed + pending + (records in any other status, such as
  in\_progress) = total = number of records. The three counters alone add up to the
  total exactly when no record is in another status.
\<close>

theorem counters_after_mutation:
  assumes "persists (store_of cfg now w) c"
  shows "\<exists>p'. self_progress (snd (run_call cfg now c w)) = Some p'
           \<and> disk (snd (run_call cfg now c w)) = Document p'
           \<and> completed_count p' + failed_count p' + pending_count p' + count_other (endpoints p')
               = total_endpoints p'
           \<and> total_endpoints p' = int (length (endpoints p'))
           \<and> ((completed_count p' + failed_count p' + pending_count p' = total_endpoints p')
                = (count_other (endpoints p') = 0))"
proof -
  obtain q where q: "snd (run_call cfg now c w) = stored q"
    using run_call_persists [OF assms] by blast
  have s: "completed_count (update_counts q) + failed_count (update_counts q)
     + pending_count (update_counts q) + count_other (endpoints (update_counts q))
     = total_endpoints (update_counts q)"
    using update_counts_sum [of q] by (simp add: endpoints_update_counts)
  have t: "total_endpoints (update_counts q) = int (length (endpoints (update_counts q)))"
    by (simp add: total_update_counts endpoints_update_counts)
  have u: "(completed_count (update_counts q) + failed_count (update_counts q)
     + pending_count (update_counts q) = total_endpoints (update_counts q))
     = (count_other (endpoints (update_counts q)) = 0)"
    using s by linarith
  have "self_progress (snd (run_call cfg now c w)) = Some (update_counts q)"
    and "disk (snd (run_call cfg now c w)) = Document (update_counts q)"
    by (simp_all add: q stored_def)
  with s t u show ?thesis by blast
qed

theorem counters_after_mutation_witness:
  "persists (store_of example_cfg ''t0''
       (example_world [(''X'', example_record ''X'' ''getX'' ''a.go'' ''pending'')]))
     (Claim ''t1'' ''t2'' ''X'')
   \<and> (\<exists>p'. self_progress (snd (run_call example_cfg ''t0'' (Claim ''t1'' ''t2'' ''X'')
              (example_world [(''X'', example_record ''X'' ''getX'' ''a.go'' ''pending'')])))
            = Some p'
         \<and> completed_count p' + failed_count p' + pending_count p' + count_other (endpoints p')
               = total_endpoints p'
         \<and> total_endpoints p' = 1 \<and> count_other (endpoints p') = 1)"
proof -
  let ?w = "example_world [(''X'', example_record ''X'' ''getX'' ''a.go'' ''pending'')]"
  have h: "persists (store_of example_cfg ''t0'' ?w) (Claim ''t1'' ''t2'' ''X'')"
    by (simp add: persists_def store_of_def load_progress_def example_world_def
        example_store_def dict_contains_def)
  from counters_after_mutation [OF h] obtain p' where
    p: "self_progress (snd (run_call example_cfg ''t0'' (Claim ''t1'' ''t2'' ''X'') ?w)) = Some p'"
    and s: "completed_count p' + failed_count p' + pending_count p' + count_other (endpoints p')
               = total_endpoints p'" by blast
  have e: "self_progress (snd (run_call example_cfg ''t0'' (Claim ''t1'' ''t2'' ''X'') ?w))
        = Some (update_counts ((example_store
            [(''X'', (example_record ''X'' ''getX'' ''a.go'' ''pending'')
               \<lparr>status := ''in_progress'', started_at := Some ''t1''\<rparr>)])
              \<lparr>last_run := Some ''t2''\<rparr>))"
    by (simp add: run_call_def mark_in_progress_eq store_of_def load_progress_def
        example_world_def example_store_def dict_contains_def dict_modify_def stored_def)
  have "total_endpoints p' = 1 \<and> count_other (endpoints p') = 1"
    using p unfolding e
    by (auto simp: update_counts_def example_store_def count_other_def dict_values_def
        example_record_def)
  with h p s show ?thesis by blast
qed

text \<open>
  Claiming the only record of a store, a pending one, leaves the counters at
  completed 0, failed 0, pending 0 and total 1: the three do not add up to the total.
\<close>

theorem counters_sum_counterexample:
  "counters_of (mark_in_progress example_cfg ''t0'' ''t1'' ''t2'' ''X''
      (example_world [(''X'', example_record ''X'' ''getX'' ''a.go'' ''pending'')]))
   = Some (0, 0, 0, 1)"
  by (simp add: counters_of_def mark_in_progress_eq store_of_def load_progress_def
      example_world_def example_store_def dict_contains_def dict_modify_def stored_def
      update_counts_def count_status_def dict_values_def example_record_def)

subsection \<open>Saving (C3)\<close>

text \<open>
  C3 (as amended). Every save first recomputes the counters and then overwrites the
  progress file in place: the file is truncated, then the full document is written. Once
  the write has completed, the file holds the full store with the recomputed counters and
  a later load reads exactly that store. While the write is under way the file holds an
  incomplete document, which a reader loads as a fresh, empty store.
\<close>

theorem save_progress_overwrites_in_place:
  assumes "self_progress w = Some p"
  shows "map self_progress (save_progress_steps w)
           = [Some (update_counts p), Some (update_counts p), Some (update_counts p)]
       \<and> map disk (save_progress_steps w) = [disk w, Malformed, Document (update_counts p)]
       \<and> save_progress w
           = \<lparr>self_progress = Some (update_counts p), disk = Document (update_counts p)\<rparr>
       \<and> store_of cfg now \<lparr>self_progress = None, disk = disk (save_progress w)\<rparr>
           = update_counts p
       \<and> store_of cfg now \<lparr>self_progress = None, disk = Malformed\<rparr>
           = create_new_progress cfg now"
  using assms
  by (simp add: save_progress_steps_def save_progress_Some Let_def store_of_def load_progress_def)

theorem save_progress_overwrites_in_place_witness:
  "self_progress (example_world [(''X'', example_pending)])
     = Some (example_store [(''X'', example_pending)])
   \<and> map disk (save_progress_steps (example_world [(''X'', example_pending)]))
       = [Document (example_store [(''X'', example_pending)]), Malformed,
          Document (update_counts (example_store [(''X'', example_pending)]))]
   \<and> store_of example_cfg ''t9''
        \<lparr>self_progress = None, disk = disk (save_progress (example_world [(''X'', example_pending)]))\<rparr>
       = update_counts (example_store [(''X'', example_pending)])"
proof -
  have h: "self_progress (example_world [(''X'', example_pending)])
     = Some (example_store [(''X'', example_pending)])"
    by (simp add: example_world_def)
  have d: "disk (example_world [(''X'', example_pending)])
     = Document (example_store [(''X'', example_pending)])"
    by (simp add: example_world_def)
  note t = save_progress_overwrites_in_place [OF h, of example_cfg "''t9''"]
  from t have a: "map disk (save_progress_steps (example_world [(''X'', example_pending)]))
       = [disk (example_world [(''X'', example_pending)]), Malformed,
          Document (update_counts (example_store [(''X'', example_pending)]))]"
    by blast
  from t have b: "store_of example_cfg ''t9''
        \<lparr>self_progress = None, disk = disk (save_progress (example_world [(''X'', example_pending)]))\<rparr>
       = update_counts (example_store [(''X'', example_pending)])"
    by blast
  from a have a': "map disk (save_progress_steps (example_world [(''X'', example_pending)]))
       = [Document (example_store [(''X'', example_pending)]), Malformed,
          Document (update_counts (example_store [(''X'', example_pending)]))]"
    by (simp only: d)
  from h a' b show ?thesis by blast
qed

text \<open>
  The second state a save passes through has a truncated progress file: a manager that
  loads at that moment gets a fresh store without any record, although the store being
  saved holds one.
\<close>

theorem save_progress_partial_write_counterexample:
  "map disk (save_progress_steps (example_world [(''X'', example_pending)]))
       = [Document (example_store [(''X'', example_pending)]), Malformed,
          Document (update_counts (example_store [(''X'', example_pending)]))]
   \<and> store_of example_cfg ''t9''
        \<lparr>self_progress = None,
         disk = disk (save_progress_steps (example_world [(''X'', example_pending)]) ! 1)\<rparr>
       = create_new_progress example_cfg ''t9''
   \<and> endpoints (create_new_progress example_cfg ''t9'') = []"
  by (simp add: save_progress_steps_def example_world_def Let_def store_of_def
      load_progress_def create_new_progress_def)

subsection \<open>Reconciliation (C4)\<close>

lemma add_new_endpoints_append: "\<exists>new. add_new_endpoints eps d = d @ new"
proof (induction eps arbitrary: d)
  case Nil
  show ?case by simp
next
  case (Cons ep eps)
  show ?case
  proof (cases "dict_contains (unique_id ep) d")
    case True
    with Cons.IH [of d] show ?thesis by simp
  next
    case False
    from Cons.IH [of "dict_insert_new (unique_id ep) (new_record ep) d"]
    obtain new where
      "add_new_endpoints eps (dict_insert_new (unique_id ep) (new_record ep) d)
        = dict_insert_new (unique_id ep) (new_record ep) d @ new" by blast
    with False show ?thesis by (simp add: dict_insert_new_def)
  qed
qed

lemma add_new_endpoints_keeps:
  "dict_get d k = Some r \<Longrightarrow> dict_get (add_new_endpoints eps d) k = Some r"
  using add_new_endpoints_append [of eps d] dict_get_append_present by metis

lemma add_new_endpoints_noop:
  "\<forall>ep \<in> set eps. dict_contains (unique_id ep) d \<Longrightarrow> add_new_endpoints eps d = d"
  by (induction eps arbitrary: d) auto

lemma add_new_endpoints_contains_old:
  "dict_contains k d \<Longrightarrow> dict_contains k (add_new_endpoints eps d)"
  using add_new_endpoints_append [of eps d] dict_contains_append by metis

lemma add_new_endpoints_covers:
  "ep \<in> set eps \<Longrightarrow> dict_contains (unique_id ep) (add_new_endpoints eps d)"
proof (induction eps arbitrary: d)
  case Nil
  then show ?case by simp
next
  case (Cons a eps)
  show ?case
  proof (cases "ep = a")
    case True
    have "dict_contains (unique_id a)
            (if \<not> dict_contains (unique_id a) d
             then dict_insert_new (unique_id a) (new_record a) d else d)"
      by (simp add: dict_contains_def dict_insert_new_def)
    then show ?thesis using True add_new_endpoints_contains_old by simp
  next
    case False
    with Cons.prems have "ep \<in> set eps" by simp
    then show ?thesis using Cons.IH by simp
  qed
qed

lemma add_new_endpoints_idem:
  "add_new_endpoints eps (add_new_endpoints eps d) = add_new_endpoints eps d"
  by (rule add_new_endpoints_noop) (simp add: add_new_endpoints_covers)

text \<open>
  C4. For every store and every list of detected candidates: \<open>sync_endpoints\<close> leaves
  every record that is already present unchanged in all its fields, whatever the fields
  of the re-detected candidate are; it removes no record (the old entries stay, in
  order, and new ones are appended); a second sync with the same candidates changes
  nothing, in memory or in the file; and a completed record keeps its status and its
  artifact reference under any sync.
\<close>

theorem sync_keeps_records_and_is_idempotent:
  "(\<forall>k r. dict_get (endpoints (store_of cfg now w)) k = Some r \<longrightarrow>
       dict_get (endpoints (store_of cfg now' (sync_endpoints cfg now eps w))) k = Some r)
   \<and> (\<exists>new. endpoints (store_of cfg now' (sync_endpoints cfg now eps w))
              = endpoints (store_of cfg now w) @ new)
   \<and> sync_endpoints cfg now' eps (sync_endpoints cfg now eps w) = sync_endpoints cfg now eps w
   \<and> (\<forall>k r. dict_get (endpoints (store_of cfg now w)) k = Some r \<and> status r = ''completed'' \<longrightarrow>
        (\<exists>r'. dict_get (endpoints (store_of cfg now' (sync_endpoints cfg now eps w))) k = Some r'
              \<and> status r' = ''completed'' \<and> doc_file r' = doc_file r))"
proof -
  let ?p = "store_of cfg now w"
  have e: "endpoints (store_of cfg now' (sync_endpoints cfg now eps w))
             = add_new_endpoints eps (endpoints ?p)"
    by (simp add: sync_endpoints_eq store_of_stored endpoints_update_counts)
  have a: "\<forall>k r. dict_get (endpoints ?p) k = Some r \<longrightarrow>
       dict_get (endpoints (store_of cfg now' (sync_endpoints cfg now eps w))) k = Some r"
    unfolding e by (simp add: add_new_endpoints_keeps)
  have b: "\<exists>new. endpoints (store_of cfg now' (sync_endpoints cfg now eps w))
              = endpoints ?p @ new"
    unfolding e by (rule add_new_endpoints_append)
  have c: "sync_endpoints cfg now' eps (sync_endpoints cfg now eps w) = sync_endpoints cfg now eps w"
  proof -
    let ?q = "?p\<lparr>endpoints := add_new_endpoints eps (endpoints ?p)\<rparr>"
    have "sync_endpoints cfg now' eps (stored ?q)
          = stored ((update_counts ?q)\<lparr>endpoints := add_new_endpoints eps (endpoints (update_counts ?q))\<rparr>)"
      by (simp only: sync_endpoints_eq store_of_stored)
    also have "\<dots> = stored ((update_counts ?q)\<lparr>endpoints := endpoints ?q\<rparr>)"
      by (simp add: endpoints_update_counts add_new_endpoints_idem)
    also have "\<dots> = stored ?q"
      by (simp only: update_counts_endpoints_upd stored_update_counts)
    finally show ?thesis by (simp only: sync_endpoints_eq [of cfg now eps w])
  qed
  from a have d: "\<forall>k r. dict_get (endpoints ?p) k = Some r \<and> status r = ''completed'' \<longrightarrow>
        (\<exists>r'. dict_get (endpoints (store_of cfg now' (sync_endpoints cfg now eps w))) k = Some r'
              \<and> status r' = ''completed'' \<and> doc_file r' = doc_file r)"
    by blast
  from a b c d show ?thesis by blast
qed

theorem sync_keeps_records_and_is_idempotent_witness:
  "dict_get (endpoints (store_of example_cfg ''t0''
        (example_world [(''http_GET__x'', example_done)]))) ''http_GET__x'' = Some example_done
   \<and> status example_done = ''completed''
   \<and> unique_id (example_info ''renamedX'' ''GET'' ''/x'' ''b.go'') = ''http_GET__x''
   \<and> (\<exists>r'. dict_get (endpoints (store_of example_cfg ''t1''
          (sync_endpoints example_cfg ''t0''
             [example_info ''renamedX'' ''GET'' ''/x'' ''b.go'',
              example_info ''getY'' ''GET'' ''/y'' ''b.go'']
             (example_world [(''http_GET__x'', example_done)])))) ''http_GET__x'' = Some r'
         \<and> status r' = ''completed'' \<and> doc_file r' = doc_file example_done)
   \<and> dict_get (endpoints (store_of example_cfg ''t1''
          (sync_endpoints example_cfg ''t0''
             [example_info ''renamedX'' ''GET'' ''/x'' ''b.go'',
              example_info ''getY'' ''GET'' ''/y'' ''b.go'']
             (example_world [(''http_GET__x'', example_done)])))) ''http_GET__x''
       = Some example_done
   \<and> sync_endpoints example_cfg ''t1''
        [example_info ''renamedX'' ''GET'' ''/x'' ''b.go'',
         example_info ''getY'' ''GET'' ''/y'' ''b.go'']
        (sync_endpoints example_cfg ''t0''
           [example_info ''renamedX'' ''GET'' ''/x'' ''b.go'',
            example_info ''getY'' ''GET'' ''/y'' ''b.go'']
           (example_world [(''http_GET__x'', example_done)]))
      = sync_endpoints example_cfg ''t0''
           [example_info ''renamedX'' ''GET'' ''/x'' ''b.go'',
            example_info ''getY'' ''GET'' ''/y'' ''b.go'']
           (example_world [(''http_GET__x'', example_done)])"
proof -
  let ?w = "example_world [(''http_GET__x'', example_done)]"
  let ?eps = "[example_info ''renamedX'' ''GET'' ''/x'' ''b.go'',
               example_info ''getY'' ''GET'' ''/y'' ''b.go'']"
  have h1: "dict_get (endpoints (store_of example_cfg ''t0'' ?w)) ''http_GET__x''
              = Some example_done"
    by (simp add: store_of_def load_progress_def example_world_def example_store_def dict_get_def)
  have h2: "status example_done = ''completed''"
    by (simp add: example_done_def example_record_def)
  have h3: "unique_id (example_info ''renamedX'' ''GET'' ''/x'' ''b.go'') = ''http_GET__x''"
    by (simp add: unique_id_def example_info_def fmt_opt_def replace_char_def)
  from sync_keeps_records_and_is_idempotent [of example_cfg "''t0''" ?w "''t1''" ?eps] h1 h2 h3
  show ?thesis by blast
qed

subsection \<open>Batch selection (C5)\<close>

lemma py_slice_to_take: "\<exists>m. py_slice_to n xs = take m xs"
  by (auto simp: py_slice_to_def)

lemma sorted_map_take: "sorted (map f xs) \<Longrightarrow> sorted (map f (take m xs))"
  by (metis sorted_wrt_take take_map)

text \<open>
  C5. For every store and every size \<open>n\<close>: every record \<open>get_next_endpoints\<close> returns is a
  record of the store with status \<open>pending\<close>; the result is sorted ascending by the pair
  (file path, display name); for a size \<open>n \<ge> 0\<close> it is the first \<open>n\<close> records of the
  sorted list of all pending records, so at most \<open>n\<close> and exactly
  \<open>min n (number of pending records)\<close> many; that sorted list holds exactly the pending
  records; without a pending record the result is empty; and a second call on the
  unchanged store returns the same list and leaves the state as it is.
\<close>

theorem next_batch_selects_sorted_pending:
  "(\<forall>ep \<in> set (fst (get_next_endpoints cfg now n w)).
       status ep = ''pending'' \<and> ep \<in> set (dict_values (endpoints (store_of cfg now w))))
   \<and> sorted (map batch_key (fst (get_next_endpoints cfg now n w)))
   \<and> (0 \<le> n \<longrightarrow>
        fst (get_next_endpoints cfg now n w)
          = take (nat n) (sort_key batch_key (pending_records (store_of cfg now w)))
        \<and> int (length (fst (get_next_endpoints cfg now n w))) \<le> n
        \<and> length (fst (get_next_endpoints cfg now n w))
            = min (nat n) (length (pending_records (store_of cfg now w))))
   \<and> set (sort_key batch_key (pending_records (store_of cfg now w)))
        = {ep \<in> set (dict_values (endpoints (store_of cfg now w))). status ep = ''pending''}
   \<and> length (sort_key batch_key (pending_records (store_of cfg now w)))
        = length (pending_records (store_of cfg now w))
   \<and> (pending_records (store_of cfg now w) = [] \<longrightarrow> fst (get_next_endpoints cfg now n w) = [])
   \<and> get_next_endpoints cfg now' n (snd (get_next_endpoints cfg now n w))
        = get_next_endpoints cfg now n w"
proof -
  let ?p = "store_of cfg now w"
  let ?s = "sort_key batch_key (pending_records ?p)"
  let ?b = "fst (get_next_endpoints cfg now n w)"
  have b: "?b = py_slice_to n ?s" by (simp add: get_next_endpoints_eq)
  obtain m where m: "?b = take m ?s" using py_slice_to_take [of n ?s] b by auto
  have s_set: "set ?s = {ep \<in> set (dict_values (endpoints ?p)). status ep = ''pending''}"
    by (auto simp: pending_records_def)
  have 1: "\<forall>ep \<in> set ?b. status ep = ''pending'' \<and> ep \<in> set (dict_values (endpoints ?p))"
  proof
    fix ep assume "ep \<in> set ?b"
    then have "ep \<in> set ?s" unfolding m by (rule in_set_takeD)
    then show "status ep = ''pending'' \<and> ep \<in> set (dict_values (endpoints ?p))"
      unfolding s_set by simp
  qed
  have 2: "sorted (map batch_key ?b)"
    unfolding m by (rule sorted_map_take) simp
  have 3: "0 \<le> n \<longrightarrow> ?b = take (nat n) ?s \<and> int (length ?b) \<le> n
             \<and> length ?b = min (nat n) (length (pending_records ?p))"
    unfolding b by (auto simp: py_slice_to_def)
  have 4: "length ?s = length (pending_records ?p)" by simp
  have 5: "pending_records ?p = [] \<longrightarrow> ?b = []"
    unfolding b by (simp add: py_slice_to_def)
  have 6: "get_next_endpoints cfg now' n (snd (get_next_endpoints cfg now n w))
        = get_next_endpoints cfg now n w"
    by (simp add: get_next_endpoints_eq store_of_world)
  from 1 2 3 s_set 4 5 6 show ?thesis by blast
qed

theorem next_batch_selects_sorted_pending_witness:
  "(0::int) \<le> 1
   \<and> example_record ''A'' ''alpha'' ''a.go'' ''pending''
        \<in> set (fst (get_next_endpoints example_cfg ''t0'' 1 (example_world example_queue)))
   \<and> status (example_record ''A'' ''alpha'' ''a.go'' ''pending'') = ''pending''
   \<and> fst (get_next_endpoints example_cfg ''t0'' 1 (example_world example_queue))
        = take (nat 1) (sort_key batch_key
            (pending_records (store_of example_cfg ''t0'' (example_world example_queue))))
   \<and> int (length (fst (get_next_endpoints example_cfg ''t0'' 1 (example_world example_queue)))) \<le> 1
   \<and> fst (get_next_endpoints example_cfg ''t0'' 1 (example_world example_queue))
        = [example_record ''A'' ''alpha'' ''a.go'' ''pending'']
   \<and> pending_records (store_of example_cfg ''t0''
         (example_world [(''C'', example_record ''C'' ''gamma'' ''a.go'' ''in_progress'')])) = []
   \<and> fst (get_next_endpoints example_cfg ''t0'' 1
         (example_world [(''C'', example_record ''C'' ''gamma'' ''a.go'' ''in_progress'')])) = []"
proof -
  let ?w = "example_world example_queue"
  let ?v = "example_world [(''C'', example_record ''C'' ''gamma'' ''a.go'' ''in_progress'')]"
  have e: "fst (get_next_endpoints example_cfg ''t0'' 1 ?w)
        = [example_record ''A'' ''alpha'' ''a.go'' ''pending'']"
    by code_simp
  have m: "example_record ''A'' ''alpha'' ''a.go'' ''pending''
        \<in> set (fst (get_next_endpoints example_cfg ''t0'' 1 ?w))"
    unfolding e by simp
  have z: "(0::int) \<le> 1" by simp
  have n: "pending_records (store_of example_cfg ''t0'' ?v) = []"
    by (simp add: pending_records_def store_of_def load_progress_def example_world_def
        example_store_def dict_values_def example_record_def)
  note t = next_batch_selects_sorted_pending [of example_cfg "''t0''" 1 ?w]
  note u = next_batch_selects_sorted_pending [of example_cfg "''t0''" 1 ?v]
  from t m have 1: "status (example_record ''A'' ''alpha'' ''a.go'' ''pending'') = ''pending''"
    by blast
  from t z have 2: "fst (get_next_endpoints example_cfg ''t0'' 1 ?w)
        = take (nat 1) (sort_key batch_key (pending_records (store_of example_cfg ''t0'' ?w)))
        \<and> int (length (fst (get_next_endpoints example_cfg ''t0'' 1 ?w))) \<le> 1"
    by blast
  from u n have 3: "fst (get_next_endpoints example_cfg ''t0'' 1 ?v) = []"
    by blast
  from z m 1 2 e n 3 show ?thesis by blast
qed

subsection \<open>Failure and reset (C6)\<close>

lemma record_of_mark_failed:
  assumes "dict_get (endpoints (store_of cfg now w)) k = Some r"
  shows "record_of (mark_failed cfg now k m w) k' =
           (if k' = k then Some (r\<lparr>status := ''failed'', error_message := Some m,
                                   retry_count := retry_count r + 1\<rparr>)
            else dict_get (endpoints (store_of cfg now w)) k')"
  using assms by (simp add: mark_failed_eq dict_contains_get record_of_stored dict_get_modify)

lemma record_of_mark_failed_absent:
  assumes "dict_get (endpoints (store_of cfg now w)) k = None"
  shows "record_of (mark_failed cfg now k m w) k' = dict_get (endpoints (store_of cfg now w)) k'"
  using assms by (simp add: mark_failed_eq dict_contains_get record_of_loaded)

lemma record_of_mark_in_progress:
  assumes "dict_get (endpoints (store_of cfg now w)) k = Some r"
  shows "record_of (mark_in_progress cfg now ts tr k w) k' =
           (if k' = k then Some (r\<lparr>status := ''in_progress'', started_at := Some ts\<rparr>)
            else dict_get (endpoints (store_of cfg now w)) k')"
  using assms by (simp add: mark_in_progress_eq dict_contains_get record_of_stored dict_get_modify)

lemma record_of_mark_in_progress_absent:
  assumes "dict_get (endpoints (store_of cfg now w)) k = None"
  shows "record_of (mark_in_progress cfg now ts tr k w) k' = dict_get (endpoints (store_of cfg now w)) k'"
  using assms by (simp add: mark_in_progress_eq dict_contains_get record_of_loaded)

lemma record_of_mark_completed:
  assumes "dict_get (endpoints (store_of cfg now w)) k = Some r"
  shows "record_of (mark_completed cfg now tc k doc w) k' =
           (if k' = k then Some (r\<lparr>status := ''completed'', doc_file := Some doc,
                                   completed_at := Some tc\<rparr>)
            else dict_get (endpoints (store_of cfg now w)) k')"
  using assms by (simp add: mark_completed_eq dict_contains_get record_of_stored dict_get_modify)

lemma record_of_mark_completed_absent:
  assumes "dict_get (endpoints (store_of cfg now w)) k = None"
  shows "record_of (mark_completed cfg now tc k doc w) k' = dict_get (endpoints (store_of cfg now w)) k'"
  using assms by (simp add: mark_completed_eq dict_contains_get record_of_loaded)

lemma record_of_reset_failed:
  "record_of (reset_failed cfg now w) k =
     map_option (\<lambda>ep. if status ep = ''failed''
                       then ep\<lparr>status := ''pending'', error_message := None\<rparr> else ep)
       (dict_get (endpoints (store_of cfg now w)) k)"
  by (simp add: reset_failed_eq record_of_stored dict_get_reset)

lemma record_of_sync:
  "dict_get (endpoints (store_of cfg now w)) k = Some r \<Longrightarrow>
   record_of (sync_endpoints cfg now eps w) k = Some r"
  by (simp add: sync_endpoints_eq record_of_stored add_new_endpoints_keeps)

lemma retry_count_monotone:
  assumes "dict_get (endpoints (store_of cfg now w)) k = Some r"
  shows "\<exists>r'. record_of (snd (run_call cfg now c w)) k = Some r' \<and> retry_count r \<le> retry_count r'"
proof (cases c)
  case (Sync eps)
  then show ?thesis using assms by (simp add: run_call_def record_of_sync)
next
  case (NextBatch n)
  then show ?thesis using assms
    by (simp add: run_call_def split_beta get_next_endpoints_world record_of_loaded)
next
  case (Claim ts tr e)
  show ?thesis
  proof (cases "dict_get (endpoints (store_of cfg now w)) e")
    case None
    then show ?thesis using assms Claim
      by (simp add: run_call_def record_of_mark_in_progress_absent)
  next
    case (Some a)
    then show ?thesis using assms Claim
      by (auto simp: run_call_def record_of_mark_in_progress)
  qed
next
  case (Complete tc e doc)
  show ?thesis
  proof (cases "dict_get (endpoints (store_of cfg now w)) e")
    case None
    then show ?thesis using assms Complete
      by (simp add: run_call_def record_of_mark_completed_absent)
  next
    case (Some a)
    then show ?thesis using assms Complete
      by (auto simp: run_call_def record_of_mark_completed)
  qed
next
  case (Fail e m)
  show ?thesis
  proof (cases "dict_get (endpoints (store_of cfg now w)) e")
    case None
    then show ?thesis using assms Fail
      by (simp add: run_call_def record_of_mark_failed_absent)
  next
    case (Some a)
    then show ?thesis using assms Fail
      by (auto simp: run_call_def record_of_mark_failed)
  qed
next
  case Reset
  then show ?thesis using assms by (simp add: run_call_def record_of_reset_failed)
next
  case Summary
  then show ?thesis using assms
    by (simp add: run_call_def split_beta get_summary_world record_of_loaded endpoints_update_counts)
qed

lemma store_of_mark_in_progress:
  "dict_get (endpoints (store_of cfg now' (mark_in_progress cfg now ts tr k w))) k'
     = record_of (mark_in_progress cfg now ts tr k w) k'"
  by (simp add: mark_in_progress_eq store_of_stored record_of_stored store_of_world
      record_of_loaded endpoints_update_counts)

lemma store_of_mark_failed:
  "dict_get (endpoints (store_of cfg now' (mark_failed cfg now k m w))) k'
     = record_of (mark_failed cfg now k m w) k'"
  by (simp add: mark_failed_eq store_of_stored record_of_stored store_of_world
      record_of_loaded endpoints_update_counts)

text \<open>
  C6. Failing an existing record with message \<open>m\<close> sets its status to \<open>failed\<close>, stores
  \<open>m\<close> and adds exactly one to its retry count. \<open>reset_failed\<close> turns every failed
  record into a pending one with no error message and the same retry count, and leaves
  the other records as they are. Claim, fail with "timeout", reset: the record is
  \<open>failed\<close> with message "timeout" and one more retry, then \<open>pending\<close> with no message
  and still that retry count. No call decreases the retry count of a record.
\<close>

theorem fail_and_reset_bookkeeping:
  "(\<forall>r. dict_get (endpoints (store_of cfg now w)) k = Some r \<longrightarrow>
      record_of (mark_failed cfg now k m w) k
        = Some (r\<lparr>status := ''failed'', error_message := Some m,
                  retry_count := retry_count r + 1\<rparr>))
   \<and> (\<forall>k' r. dict_get (endpoints (store_of cfg now w)) k' = Some r \<longrightarrow>
        record_of (reset_failed cfg now w) k'
          = Some (if status r = ''failed''
                  then r\<lparr>status := ''pending'', error_message := None\<rparr> else r)
        \<and> (\<exists>r'. record_of (reset_failed cfg now w) k' = Some r'
                \<and> retry_count r' = retry_count r))
   \<and> (\<forall>r. dict_get (endpoints (store_of cfg now w)) k = Some r \<longrightarrow>
        record_of (mark_failed cfg n2 k ''timeout'' (mark_in_progress cfg now ts tr k w)) k
          = Some (r\<lparr>status := ''failed'', started_at := Some ts,
                    error_message := Some ''timeout'', retry_count := retry_count r + 1\<rparr>)
        \<and> record_of (reset_failed cfg n3
              (mark_failed cfg n2 k ''timeout'' (mark_in_progress cfg now ts tr k w))) k
          = Some (r\<lparr>status := ''pending'', started_at := Some ts,
                    error_message := None, retry_count := retry_count r + 1\<rparr>))
   \<and> (\<forall>c k' r. dict_get (endpoints (store_of cfg now w)) k' = Some r \<longrightarrow>
        (\<exists>r'. record_of (snd (run_call cfg now c w)) k' = Some r'
              \<and> retry_count r \<le> retry_count r'))"
proof (intro conjI allI impI)
  fix r assume "dict_get (endpoints (store_of cfg now w)) k = Some r"
  then show "record_of (mark_failed cfg now k m w) k
        = Some (r\<lparr>status := ''failed'', error_message := Some m,
                  retry_count := retry_count r + 1\<rparr>)"
    by (simp add: record_of_mark_failed)
next
  fix k' r assume "dict_get (endpoints (store_of cfg now w)) k' = Some r"
  then show "record_of (reset_failed cfg now w) k'
          = Some (if status r = ''failed''
                  then r\<lparr>status := ''pending'', error_message := None\<rparr> else r)"
    by (simp add: record_of_reset_failed)
next
  fix k' r assume "dict_get (endpoints (store_of cfg now w)) k' = Some r"
  then show "\<exists>r'. record_of (reset_failed cfg now w) k' = Some r'
                \<and> retry_count r' = retry_count r"
    by (simp add: record_of_reset_failed)
next
  fix r assume r: "dict_get (endpoints (store_of cfg now w)) k = Some r"
  let ?w1 = "mark_in_progress cfg now ts tr k w"
  have 1: "dict_get (endpoints (store_of cfg n2 ?w1)) k
             = Some (r\<lparr>status := ''in_progress'', started_at := Some ts\<rparr>)"
    using r by (simp add: store_of_mark_in_progress record_of_mark_in_progress)
  show f: "record_of (mark_failed cfg n2 k ''timeout'' ?w1) k
          = Some (r\<lparr>status := ''failed'', started_at := Some ts,
                    error_message := Some ''timeout'', retry_count := retry_count r + 1\<rparr>)"
    using record_of_mark_failed [OF 1, of "''timeout''" k] by simp
  have 2: "dict_get (endpoints (store_of cfg n3 (mark_failed cfg n2 k ''timeout'' ?w1))) k
          = Some (r\<lparr>status := ''failed'', started_at := Some ts,
                    error_message := Some ''timeout'', retry_count := retry_count r + 1\<rparr>)"
    using f by (simp add: store_of_mark_failed)
  show "record_of (reset_failed cfg n3 (mark_failed cfg n2 k ''timeout'' ?w1)) k
          = Some (r\<lparr>status := ''pending'', started_at := Some ts,
                    error_message := None, retry_count := retry_count r + 1\<rparr>)"
    by (simp add: record_of_reset_failed 2)
next
  fix c k' r assume "dict_get (endpoints (store_of cfg now w)) k' = Some r"
  then show "\<exists>r'. record_of (snd (run_call cfg now c w)) k' = Some r'
              \<and> retry_count r \<le> retry_count r'"
    by (rule retry_count_monotone)
qed

theorem fail_and_reset_bookkeeping_witness:
  "dict_get (endpoints (store_of example_cfg ''t0'' (example_world [(''X'', example_pending)]))) ''X''
     = Some example_pending
   \<and> retry_count example_pending = 0
   \<and> record_of (mark_failed example_cfg ''t0'' ''X'' ''boom''
         (example_world [(''X'', example_pending)])) ''X''
       = Some (example_pending\<lparr>status := ''failed'', error_message := Some ''boom'',
                 retry_count := 1\<rparr>)
   \<and> record_of (reset_failed example_cfg ''t0'' (example_world [(''X'', example_pending)])) ''X''
       = Some example_pending
   \<and> record_of (mark_failed example_cfg ''t3'' ''X'' ''timeout''
         (mark_in_progress example_cfg ''t0'' ''t1'' ''t2'' ''X''
            (example_world [(''X'', example_pending)]))) ''X''
       = Some (example_pending\<lparr>status := ''failed'', started_at := Some ''t1'',
                 error_message := Some ''timeout'', retry_count := 1\<rparr>)
   \<and> record_of (reset_failed example_cfg ''t4''
         (mark_failed example_cfg ''t3'' ''X'' ''timeout''
           (mark_in_progress example_cfg ''t0'' ''t1'' ''t2'' ''X''
              (example_world [(''X'', example_pending)])))) ''X''
       = Some (example_pending\<lparr>status := ''pending'', started_at := Some ''t1'',
                 error_message := None, retry_count := 1\<rparr>)
   \<and> (\<exists>r'. record_of (snd (run_call example_cfg ''t0'' (Complete ''t5'' ''X'' ''x.md'')
                (example_world [(''X'', example_pending)]))) ''X'' = Some r'
          \<and> retry_count example_pending \<le> retry_count r')"
proof -
  let ?w = "example_world [(''X'', example_pending)]"
  have h: "dict_get (endpoints (store_of example_cfg ''t0'' ?w)) ''X'' = Some example_pending"
    by (simp add: store_of_def load_progress_def example_world_def example_store_def dict_get_def)
  have z: "retry_count example_pending = 0"
    by (simp add: example_pending_def example_record_def)
  have s: "status example_pending \<noteq> ''failed''"
    by (simp add: example_pending_def example_record_def)
  note t = fail_and_reset_bookkeeping
         [of example_cfg "''t0''" ?w "''X''" _ "''t3''" "''t1''" "''t2''" "''t4''"]
  from t [of "''boom''"] h
  have a: "record_of (mark_failed example_cfg ''t0'' ''X'' ''boom'' ?w) ''X''
       = Some (example_pending\<lparr>status := ''failed'', error_message := Some ''boom'',
                 retry_count := retry_count example_pending + 1\<rparr>)"
    by blast
  from t [of "''boom''"] h
  have "record_of (reset_failed example_cfg ''t0'' ?w) ''X''
       = Some (if status example_pending = ''failed''
               then example_pending\<lparr>status := ''pending'', error_message := None\<rparr>
               else example_pending)"
    by blast
  with s have b: "record_of (reset_failed example_cfg ''t0'' ?w) ''X'' = Some example_pending"
    by simp
  from t [of "''boom''"] h
  have c: "record_of (mark_failed example_cfg ''t3'' ''X'' ''timeout''
         (mark_in_progress example_cfg ''t0'' ''t1'' ''t2'' ''X'' ?w)) ''X''
       = Some (example_pending\<lparr>status := ''failed'', started_at := Some ''t1'',
                 error_message := Some ''timeout'',
                 retry_count := retry_count example_pending + 1\<rparr>)
     \<and> record_of (reset_failed example_cfg ''t4''
         (mark_failed example_cfg ''t3'' ''X'' ''timeout''
           (mark_in_progress example_cfg ''t0'' ''t1'' ''t2'' ''X'' ?w))) ''X''
       = Some (example_pending\<lparr>status := ''pending'', started_at := Some ''t1'',
                 error_message := None, retry_count := retry_count example_pending + 1\<rparr>)"
    by blast
  from t [of "''boom''"] h
  have d: "\<exists>r'. record_of (snd (run_call example_cfg ''t0'' (Complete ''t5'' ''X'' ''x.md'') ?w)) ''X''
              = Some r' \<and> retry_count example_pending \<le> retry_count r'"
    by blast
  from h z a b c d show ?thesis by simp
qed

subsection \<open>The cached store (C10)\<close>

lemma run_call_cached:
  assumes "self_progress w = Some p" and "self_progress w' = Some p"
  shows "fst (run_call cfg now c w) = fst (run_call cfg now' c w')
         \<and> self_progress (snd (run_call cfg now c w)) = self_progress (snd (run_call cfg now' c w'))
         \<and> self_progress (snd (run_call cfg now c w)) \<noteq> None"
proof -
  have s: "store_of cfg now w = p" "store_of cfg now' w' = p"
    using assms by (simp_all add: store_of_cached)
  show ?thesis
    by (cases c)
      (simp_all add: run_call_def split_beta sync_endpoints_eq mark_in_progress_eq
        mark_completed_eq mark_failed_eq reset_failed_eq get_next_endpoints_eq
        get_summary_eq s stored_def)
qed

lemma run_calls_cached:
  assumes "self_progress w = Some p" and "self_progress w' = Some p"
  shows "fst (run_calls cfg now xs w) = fst (run_calls cfg now' (map (\<lambda>(e, c). (None, c)) xs) w')
       \<and> self_progress (snd (run_calls cfg now xs w))
           = self_progress (snd (run_calls cfg now' (map (\<lambda>(e, c). (None, c)) xs) w'))"
  using assms
proof (induction xs arbitrary: w w' p)
  case Nil
  then show ?case by simp
next
  case (Cons x xs)
  obtain e c where x: "x = (e, c)" by (cases x)
  let ?w0 = "case e of None \<Rightarrow> w | Some d \<Rightarrow> w\<lparr>disk := d\<rparr>"
  have w0: "self_progress ?w0 = Some p" using Cons.prems(1) by (cases e) simp_all
  note rc = run_call_cached [OF w0 Cons.prems(2), of cfg now c now']
  from rc obtain q where q1: "self_progress (snd (run_call cfg now c ?w0)) = Some q"
    by blast
  from rc q1 have q2: "self_progress (snd (run_call cfg now' c w')) = Some q"
    by simp
  note q = q1 q2
  from rc have r: "fst (run_call cfg now c ?w0) = fst (run_call cfg now' c w')"
    by blast
  from Cons.IH [OF q] r show ?case
    by (simp add: x split_beta Let_def)
qed

text \<open>
  C10. Every load, and so every call, leaves the manager with a cached store. Once the
  store is cached, \<open>load_progress\<close> returns it without looking at the file: whatever
  the file has been replaced with, every call gives the same reply and the same cached
  store as if the file were untouched; a call that saves overwrites the foreign content
  with the manager's own store, and a call that does not save leaves it there unread.
  The same holds along any sequence of calls with the file replaced in between.
\<close>

theorem cached_store_is_read_once:
  "self_progress (snd (load_progress cfg now w0)) \<noteq> None
   \<and> self_progress (snd (run_call cfg now c w0)) \<noteq> None
   \<and> (\<forall>p. self_progress w = Some p \<longrightarrow>
        load_progress cfg now (w\<lparr>disk := d\<rparr>) = (p, w\<lparr>disk := d\<rparr>)
        \<and> fst (run_call cfg now c (w\<lparr>disk := d\<rparr>)) = fst (run_call cfg now c w)
        \<and> self_progress (snd (run_call cfg now c (w\<lparr>disk := d\<rparr>)))
            = self_progress (snd (run_call cfg now c w))
        \<and> (persists p c \<longrightarrow>
             snd (run_call cfg now c (w\<lparr>disk := d\<rparr>)) = snd (run_call cfg now c w)
             \<and> (\<exists>p'. snd (run_call cfg now c (w\<lparr>disk := d\<rparr>))
                        = \<lparr>self_progress = Some p', disk = Document p'\<rparr>))
        \<and> (\<not> persists p c \<longrightarrow> disk (snd (run_call cfg now c (w\<lparr>disk := d\<rparr>))) = d)
        \<and> fst (run_calls cfg now xs w)
            = fst (run_calls cfg now (map (\<lambda>(e, c). (None, c)) xs) w)
        \<and> self_progress (snd (run_calls cfg now xs w))
            = self_progress (snd (run_calls cfg now (map (\<lambda>(e, c). (None, c)) xs) w)))"
proof (intro conjI allI impI)
  show "self_progress (snd (load_progress cfg now w0)) \<noteq> None"
    by (simp add: load_progress_cached)
  show "self_progress (snd (run_call cfg now c w0)) \<noteq> None"
    by (rule run_call_loads)
next
  fix p assume p: "self_progress w = Some p"
  then have pd: "self_progress (w\<lparr>disk := d\<rparr>) = Some p" by simp
  show "load_progress cfg now (w\<lparr>disk := d\<rparr>) = (p, w\<lparr>disk := d\<rparr>)"
    using pd by (rule load_progress_Some)
  note rc = run_call_cached [OF pd p, of cfg now c now]
  from rc show "fst (run_call cfg now c (w\<lparr>disk := d\<rparr>)) = fst (run_call cfg now c w)"
    by blast
  from rc show sp: "self_progress (snd (run_call cfg now c (w\<lparr>disk := d\<rparr>)))
            = self_progress (snd (run_call cfg now c w))"
    by blast
  show "fst (run_calls cfg now xs w)
            = fst (run_calls cfg now (map (\<lambda>(e, c). (None, c)) xs) w)"
    using run_calls_cached [OF p p] by blast
  show "self_progress (snd (run_calls cfg now xs w))
            = self_progress (snd (run_calls cfg now (map (\<lambda>(e, c). (None, c)) xs) w))"
    using run_calls_cached [OF p p] by blast
  have s: "store_of cfg now (w\<lparr>disk := d\<rparr>) = p" "store_of cfg now w = p"
    using p pd by (simp_all add: store_of_cached)
  {
    assume h: "persists p c"
    obtain p' where p': "self_progress (snd (run_call cfg now c w)) = Some p'"
      using run_call_loads [of cfg now c w] by auto
    have d1: "disk (snd (run_call cfg now c w)) = Document p'"
      using h p' by (simp add: run_call_disk s)
    have d2: "disk (snd (run_call cfg now c (w\<lparr>disk := d\<rparr>))) = Document p'"
      using h p' sp by (simp add: run_call_disk s)
    have e1: "snd (run_call cfg now c w) = \<lparr>self_progress = Some p', disk = Document p'\<rparr>"
      using p' d1 by (cases "snd (run_call cfg now c w)") simp
    have e2: "snd (run_call cfg now c (w\<lparr>disk := d\<rparr>))
                = \<lparr>self_progress = Some p', disk = Document p'\<rparr>"
      using p' sp d2 by (cases "snd (run_call cfg now c (w\<lparr>disk := d\<rparr>))") simp
    show "snd (run_call cfg now c (w\<lparr>disk := d\<rparr>)) = snd (run_call cfg now c w)"
      using e1 e2 by simp
    show "\<exists>p'. snd (run_call cfg now c (w\<lparr>disk := d\<rparr>))
                        = \<lparr>self_progress = Some p', disk = Document p'\<rparr>"
      using e2 by blast
  }
  {
    assume h: "\<not> persists p c"
    show "disk (snd (run_call cfg now c (w\<lparr>disk := d\<rparr>))) = d"
      using h by (simp add: run_call_disk s)
  }
qed

theorem cached_store_is_read_once_witness:
  "self_progress (example_world [(''X'', example_pending)])
     = Some (example_store [(''X'', example_pending)])
   \<and> persists (example_store [(''X'', example_pending)]) (Claim ''t1'' ''t2'' ''X'')
   \<and> snd (run_call example_cfg ''t0'' (Claim ''t1'' ''t2'' ''X'')
            ((example_world [(''X'', example_pending)])\<lparr>disk := Malformed\<rparr>))
       = snd (run_call example_cfg ''t0'' (Claim ''t1'' ''t2'' ''X'')
            (example_world [(''X'', example_pending)]))
   \<and> fst (run_call example_cfg ''t0'' (Claim ''t1'' ''t2'' ''X'')
            ((example_world [(''X'', example_pending)])\<lparr>disk := Malformed\<rparr>))
       = fst (run_call example_cfg ''t0'' (Claim ''t1'' ''t2'' ''X'')
            (example_world [(''X'', example_pending)]))
   \<and> \<not> persists (example_store [(''X'', example_pending)]) (NextBatch 1)
   \<and> fst (run_call example_cfg ''t0'' (NextBatch 1)
            ((example_world [(''X'', example_pending)])\<lparr>disk := Missing\<rparr>))
       = fst (run_call example_cfg ''t0'' (NextBatch 1)
            (example_world [(''X'', example_pending)]))
   \<and> disk (snd (run_call example_cfg ''t0'' (NextBatch 1)
            ((example_world [(''X'', example_pending)])\<lparr>disk := Missing\<rparr>))) = Missing
   \<and> fst (run_calls example_cfg ''t0''
            [(Some Missing, NextBatch 1), (Some Malformed, Claim ''t1'' ''t2'' ''X''),
             (Some Missing, Summary)]
            (example_world [(''X'', example_pending)]))
       = fst (run_calls example_cfg ''t0''
            (map (\<lambda>(e, c). (None, c))
               [(Some Missing, NextBatch 1), (Some Malformed, Claim ''t1'' ''t2'' ''X''),
                (Some Missing, Summary)])
            (example_world [(''X'', example_pending)]))"
proof -
  let ?w = "example_world [(''X'', example_pending)]"
  have h: "self_progress ?w = Some (example_store [(''X'', example_pending)])"
    by (simp add: example_world_def)
  have g: "persists (example_store [(''X'', example_pending)]) (Claim ''t1'' ''t2'' ''X'')"
    by (simp add: persists_def example_store_def dict_contains_def)
  have n: "\<not> persists (example_store [(''X'', example_pending)]) (NextBatch 1)"
    by (simp add: persists_def)
  from cached_store_is_read_once
         [of example_cfg "''t0''" ?w "Claim ''t1'' ''t2'' ''X''" ?w Malformed
            "[(Some Missing, NextBatch 1), (Some Malformed, Claim ''t1'' ''t2'' ''X''),
              (Some Missing, Summary)]"] h g
  have 1: "snd (run_call example_cfg ''t0'' (Claim ''t1'' ''t2'' ''X'') (?w\<lparr>disk := Malformed\<rparr>))
       = snd (run_call example_cfg ''t0'' (Claim ''t1'' ''t2'' ''X'') ?w)
     \<and> fst (run_call example_cfg ''t0'' (Claim ''t1'' ''t2'' ''X'') (?w\<lparr>disk := Malformed\<rparr>))
       = fst (run_call example_cfg ''t0'' (Claim ''t1'' ''t2'' ''X'') ?w)
     \<and> fst (run_calls example_cfg ''t0''
            [(Some Missing, NextBatch 1), (Some Malformed, Claim ''t1'' ''t2'' ''X''),
             (Some Missing, Summary)] ?w)
       = fst (run_calls example_cfg ''t0''
            (map (\<lambda>(e, c). (None, c))
               [(Some Missing, NextBatch 1), (Some Malformed, Claim ''t1'' ''t2'' ''X''),
                (Some Missing, Summary)]) ?w)"
    by blast
  from cached_store_is_read_once
         [of example_cfg "''t0''" ?w "NextBatch 1" ?w Missing "[]"] h n
  have 2: "fst (run_call example_cfg ''t0'' (NextBatch 1) (?w\<lparr>disk := Missing\<rparr>))
       = fst (run_call example_cfg ''t0'' (NextBatch 1) ?w)
     \<and> disk (snd (run_call example_cfg ''t0'' (NextBatch 1) (?w\<lparr>disk := Missing\<rparr>))) = Missing"
    by blast
  from h g n 1 2 show ?thesis by blast
qed

section \<open>Properties of the code reader\<close>

subsection \<open>Route detection (C7)\<close>

























subsection \<open>Service attribution (C8)\<close>

lemma foldl_service:
  "foldl (grpc_step cf ''service'') (svc, found) ms =
     ((case ms of [] \<Rightarrow> svc | _ # _ \<Rightarrow> Some (fmt_opt (map_of (snd (last ms)) 1))), found)"
  by (induction ms arbitrary: svc) (auto simp: grpc_step_def Let_def split: list.splits)

lemma foldl_rpc:
  "foldl (grpc_step cf ''rpc'') (svc, found) ms =
     (svc, found @
        map (\<lambda>m. grpc_candidate (cf_relative_path cf) (fmt_opt (map_of (snd m) 1))
                   (line_of (cf_content cf) (fst m)) svc) ms)"
  by (induction ms arbitrary: found) (auto simp: grpc_step_def Let_def grpc_candidate_def)

lemma protobuf_rules:
  "table_get GRPC_PATTERNS ''protobuf'' =
     [(proto_service_rule, ''service''), (proto_rpc_rule, ''rpc'')]"
  by (simp add: table_get_def GRPC_PATTERNS_def)

text \<open>
  In a protobuf file every method candidate carries the name of the last service
  declaration of the whole file, wherever the method stands, and no service name only
  when the file declares no service at all.
\<close>

lemma protobuf_service_is_last_declared:
  assumes "cf_language cf = ''protobuf''"
  shows "find_grpc_endpoints cf =
           map (\<lambda>m. grpc_candidate (cf_relative_path cf) (fmt_opt (map_of (snd m) 1))
                      (line_of (cf_content cf) (fst m))
                      (case finditer proto_service_rule (cf_content cf) of
                         [] \<Rightarrow> None
                       | _ # _ \<Rightarrow>
                           Some (fmt_opt (map_of (snd (last
                             (finditer proto_service_rule (cf_content cf)))) 1))))
             (finditer proto_rpc_rule (cf_content cf))"
  by (simp add: find_grpc_endpoints_def assms protobuf_rules foldl_service foldl_rpc)

text \<open>
  C8 (the code departs from it). With one service declaration followed three lines
  later by \<open>rpc GetUser(...)\<close>, detection yields the one candidate \<open>GetUser\<close> of service
  \<open>Users\<close>. With two services, the method \<open>GetUser\<close> of line 2, which stands after
  \<open>service Users {\<close> and before \<open>service Orders {\<close>, is attributed to \<open>Orders\<close>; and a
  method that stands before the only service declaration carries that service's name
  instead of none.
\<close>

theorem grpc_service_attribution:
  "find_grpc_endpoints (proto_file p rel n proto_one_service)
     = [grpc_candidate rel ''GetUser'' 4 (Some ''Users'')]
   \<and> proto_two_services ! 0 = ''service Users {''
   \<and> proto_two_services ! 1 = ''rpc GetUser(Req) returns (User);''
   \<and> proto_two_services ! 3 = ''service Orders {''
   \<and> find_grpc_endpoints (proto_file p rel n proto_two_services)
       = [grpc_candidate rel ''GetUser'' 2 (Some ''Orders''),
          grpc_candidate rel ''GetOrder'' 5 (Some ''Orders'')]
   \<and> find_grpc_endpoints (proto_file p rel n proto_rpc_first)
       = [grpc_candidate rel ''Ping'' 1 (Some ''Users'')]"
  by code_simp

subsection \<open>Reading files (C9)\<close>

lemma read_file_rejects_non_prefix:
  assumes "map_of (file_cache rd) fp = None"
    and "\<not> startswith (abspath (cwd rd) (if \<not> isabs fp then path_join root fp else fp))
             (abspath (cwd rd) root)"
  shows "read_file root fp rd = (Inl PermissionError, rd)"
  using assms by (simp add: read_file_def Let_def)

text \<open>
  C9 (the code departs from it). The project root is \<open>/srv/shop\<close>; the file
  \<open>/srv/shop-secrets/keys.py\<close> lies in a sibling directory whose name has the root's
  name as a string prefix, so it is outside the root. \<open>read_file\<close> returns its content,
  for the absolute path and for the relative path \<open>../shop-secrets/keys.py\<close>; a path
  into a sibling directory without the common prefix is rejected.
\<close>

theorem read_file_sibling_with_root_prefix:
  "abspath (cwd example_reader) ''/srv/shop-secrets/keys.py'' = ''/srv/shop-secrets/keys.py''
   \<and> \<not> inside_directory (abspath (cwd example_reader) ''/srv/shop'')
          (abspath (cwd example_reader) ''/srv/shop-secrets/keys.py'')
   \<and> fst (read_file ''/srv/shop'' ''/srv/shop-secrets/keys.py'' example_reader)
       = Inr (Some \<lparr>cf_path = ''/srv/shop-secrets/keys.py'',
                     cf_relative_path = ''../shop-secrets/keys.py'',
                     cf_content = ''API_KEY = 1'', cf_language = ''python'', cf_size = 11\<rparr>)
   \<and> fst (read_file ''/srv/shop'' ''../shop-secrets/keys.py'' example_reader)
       = Inr (Some \<lparr>cf_path = ''/srv/shop/../shop-secrets/keys.py'',
                     cf_relative_path = ''../shop-secrets/keys.py'',
                     cf_content = ''API_KEY = 1'', cf_language = ''python'', cf_size = 11\<rparr>)
   \<and> fst (read_file ''/srv/shop'' ''../vault/keys.py'' example_reader) = Inl PermissionError
   \<and> fst (read_file ''/srv/shop'' ''main.py'' example_reader)
       = Inr (Some \<lparr>cf_path = ''/srv/shop/main.py'', cf_relative_path = ''main.py'',
                     cf_content = ''print(1)'', cf_language = ''python'', cf_size = 8\<rparr>)"
  by code_simp

end
